theory Spec2Isabelle
  imports Main "HOL-Library.Sublist" "HOL-Library.AList" "HOL-Library.Monad_Syntax"
begin

section \<open>Go strings\<close>

text \<open>
  A Go string is a sequence of bytes, so it is a \<^typ>\<open>string\<close> here (a list of 8-bit
  characters). The functions of package \<open>strings\<close> that the program calls are written
  out on byte lists.
\<close>

text \<open>
  \<open>strings.Index(s, substr)\<close>: the index of the first occurrence of \<open>substr\<close> in
  \<open>s\<close>, or \<open>-1\<close> when there is none.
\<close>

fun indexFrom :: "nat \<Rightarrow> string \<Rightarrow> string \<Rightarrow> int" where
  "indexFrom i substr [] = (if substr = [] then int i else - 1)"
| "indexFrom i substr (c # cs) =
     (if prefix substr (c # cs) then int i else indexFrom (Suc i) substr cs)"

definition Index :: "string \<Rightarrow> string \<Rightarrow> int" where
  "Index s substr = indexFrom 0 substr s"

definition Contains :: "string \<Rightarrow> string \<Rightarrow> bool" where
  "Contains s substr = (0 \<le> Index s substr)"

definition HasPrefix :: "string \<Rightarrow> string \<Rightarrow> bool" where
  "HasPrefix s pre = prefix pre s"

text \<open>
  \<open>strings.Split(s, sep)\<close> and \<open>strings.SplitN(s, sep, n)\<close>. Go's loop cuts at the
  first occurrence of \<open>sep\<close> at most \<open>n - 1\<close> times and stops when there is none
  left; \<open>Split\<close> allows as many cuts as there are occurrences, which is at most the
  length of \<open>s\<close>. With an empty separator Go splits after each UTF-8 sequence; the
  program only passes the literals \<open>"\n"\<close> and \<open>"---"\<close>, and the empty separator is
  written here as a split after each byte.
\<close>

fun splitLoop :: "nat \<Rightarrow> string \<Rightarrow> string \<Rightarrow> string list" where
  "splitLoop 0 s sep = [s]"
| "splitLoop (Suc k) s sep =
     (let m = Index s sep in
      if m < 0 then [s]
      else take (nat m) s # splitLoop k (drop (nat m + length sep) s) sep)"

definition Split :: "string \<Rightarrow> string \<Rightarrow> string list" where
  "Split s sep = (if sep = [] then map (\<lambda>c. [c]) s else splitLoop (length s) s sep)"

definition SplitN :: "string \<Rightarrow> string \<Rightarrow> int \<Rightarrow> string list" where
  "SplitN s sep n =
     (if n = 0 then []
      else if n < 0 then Split s sep
      else if sep = [] then
        map (\<lambda>c. [c]) (take (nat n - 1) s)
          @ (if nat n - 1 < length s then [drop (nat n - 1) s] else [])
      else splitLoop (min (nat n) (length s + 1) - 1) s sep)"

fun Join :: "string list \<Rightarrow> string \<Rightarrow> string" where
  "Join [] sep = []"
| "Join [e] sep = e"
| "Join (e # es) sep = e @ sep @ Join es sep"

text \<open>
  \<open>strings.TrimSpace(s)\<close> removes the leading and the trailing white space, as Unicode
  defines it, from the UTF-8 text \<open>s\<close>. A white-space code point at the start (the
  end) of \<open>s\<close> is there exactly when its UTF-8 encoding is a prefix (a suffix) of
  \<open>s\<close>; the encodings of the 25 code points are listed.
\<close>

definition spaceRunes :: "string list" where
  "spaceRunes =
     [[CHR 0x09], [CHR 0x0A], [CHR 0x0B], [CHR 0x0C], [CHR 0x0D], [CHR 0x20],
      [CHR 0xC2, CHR 0x85], [CHR 0xC2, CHR 0xA0],
      [CHR 0xE1, CHR 0x9A, CHR 0x80],
      [CHR 0xE2, CHR 0x80, CHR 0x80], [CHR 0xE2, CHR 0x80, CHR 0x81],
      [CHR 0xE2, CHR 0x80, CHR 0x82], [CHR 0xE2, CHR 0x80, CHR 0x83],
      [CHR 0xE2, CHR 0x80, CHR 0x84], [CHR 0xE2, CHR 0x80, CHR 0x85],
      [CHR 0xE2, CHR 0x80, CHR 0x86], [CHR 0xE2, CHR 0x80, CHR 0x87],
      [CHR 0xE2, CHR 0x80, CHR 0x88], [CHR 0xE2, CHR 0x80, CHR 0x89],
      [CHR 0xE2, CHR 0x80, CHR 0x8A],
      [CHR 0xE2, CHR 0x80, CHR 0xA8], [CHR 0xE2, CHR 0x80, CHR 0xA9],
      [CHR 0xE2, CHR 0x80, CHR 0xAF], [CHR 0xE2, CHR 0x81, CHR 0x9F],
      [CHR 0xE3, CHR 0x80, CHR 0x80]]"

text \<open>
  The loop that drops one leading rune of the given set after the other; a string of
  \<open>n\<close> bytes holds at most \<open>n\<close> runes.
\<close>

fun trimLeftLoop :: "nat \<Rightarrow> string list \<Rightarrow> string \<Rightarrow> string" where
  "trimLeftLoop 0 runes s = s"
| "trimLeftLoop (Suc n) runes s =
     (case find (\<lambda>r. prefix r s) runes of
        None \<Rightarrow> s
      | Some r \<Rightarrow> trimLeftLoop n runes (drop (length r) s))"

definition TrimLeftSpace :: "string \<Rightarrow> string" where
  "TrimLeftSpace s = trimLeftLoop (length s) spaceRunes s"

definition TrimRightSpace :: "string \<Rightarrow> string" where
  "TrimRightSpace s = rev (trimLeftLoop (length s) (map rev spaceRunes) (rev s))"

definition TrimSpace :: "string \<Rightarrow> string" where
  "TrimSpace s = TrimRightSpace (TrimLeftSpace s)"

section \<open>Priorities (package config)\<close>

datatype PriorityType = PriorityNone | PriorityRelative | PriorityExplicit

text \<open>
  \<open>Value\<close> is a Go \<open>int\<close>. The program only stores and compares it, so the
  mathematical integers model it without any wrap-around.
\<close>

record Priority =
  Type :: PriorityType
  Value :: int

definition NewExplicitPriority :: "int \<Rightarrow> Priority" where
  "NewExplicitPriority v = \<lparr>Type = PriorityExplicit, Value = v\<rparr>"

definition NewRelativePriority :: "int \<Rightarrow> Priority" where
  "NewRelativePriority v = \<lparr>Type = PriorityRelative, Value = v\<rparr>"

text \<open>The zero value of the struct, which every unset priority field holds.\<close>

definition zeroPriority :: Priority where
  "zeroPriority = \<lparr>Type = PriorityNone, Value = 0\<rparr>"

definition TakesPrecedenceOver :: "Priority \<Rightarrow> Priority \<Rightarrow> bool" where
  "TakesPrecedenceOver p other =
     (if Type p = PriorityExplicit \<and> Type other \<noteq> PriorityExplicit then True
      else if Type other = PriorityExplicit \<and> Type p \<noteq> PriorityExplicit then False
      else if Type p = Type other then Value p > Value other
      else Type p = PriorityRelative \<and> Type other = PriorityNone)"

definition TakesPrecedenceOverOrEqual :: "Priority \<Rightarrow> Priority \<Rightarrow> bool" where
  "TakesPrecedenceOverOrEqual p other =
     (if Type p = PriorityExplicit \<and> Type other \<noteq> PriorityExplicit then True
      else if Type other = PriorityExplicit \<and> Type p \<noteq> PriorityExplicit then False
      else if Type p = Type other then Value p \<ge> Value other
      else if Type p = PriorityRelative \<and> Type other = PriorityNone then True
      else if Type p = PriorityNone \<and> Type other = PriorityNone then True
      else False)"

section \<open>Merge strategies (package merger, strategies.go)\<close>

text \<open>\<open>MergeStrategy\<close> is a named string type.\<close>

type_synonym MergeStrategy = string

definition StrategyReplace :: MergeStrategy where
  "StrategyReplace = ''replace''"

definition StrategyAppend :: MergeStrategy where
  "StrategyAppend = ''append''"

definition StrategyPrepend :: MergeStrategy where
  "StrategyPrepend = ''prepend''"

definition ApplyStrategy :: "MergeStrategy \<Rightarrow> string \<Rightarrow> string \<Rightarrow> string" where
  "ApplyStrategy strategy old new =
     (if strategy = StrategyReplace then new
      else if strategy = StrategyAppend then
        (if old = [] then new else old @ [CHR 0x0A] @ new)
      else if strategy = StrategyPrepend then
        (if old = [] then new else new @ [CHR 0x0A] @ old)
      else new)"

section \<open>Placeholder blocks (package merger)\<close>

text \<open>
  \<open>content[:startIdx]\<close> and \<open>content[endIdx+len(closeTag):]\<close> are within bounds
  whenever both indices were found, so the slices are \<^const>\<open>take\<close> and \<^const>\<open>drop\<close>.
\<close>

definition replacePlaceholderBlock :: "string \<Rightarrow> string \<Rightarrow> string \<Rightarrow> string \<Rightarrow> string" where
  "replacePlaceholderBlock content openTag closeTag replacement =
     (let startIdx = Index content openTag in
      if startIdx = - 1 then content
      else
        let endIdx = Index content closeTag in
        if endIdx = - 1 then content
        else
          let before = take (nat startIdx) content;
              after = drop (nat (endIdx + int (length closeTag))) content
          in before @ replacement @ after)"

section \<open>The canonical model (package config)\<close>

text \<open>
  A Go map is either \<open>nil\<close> or a table of entries with pairwise different keys. The
  table is a list of key/value pairs; its order stands for the order in which a
  \<open>range\<close> loop visits the entries, which Go leaves unspecified. Statements about a
  map go through \<open>lookup\<close>, and hold for every order because they hold for every list.
  Reading and ranging over a \<open>nil\<close> map behave as on an empty map; assigning to an
  entry of a \<open>nil\<close> map panics, which is the result \<open>None\<close> of \<open>assign\<close>.
\<close>

datatype 'v gomap = NilMap | GoMap "(string \<times> 'v) list"

fun entries :: "'v gomap \<Rightarrow> (string \<times> 'v) list" where
  "entries NilMap = []"
| "entries (GoMap kvs) = kvs"

definition lookup :: "'v gomap \<Rightarrow> string \<Rightarrow> 'v option" where
  "lookup m k = map_of (entries m) k"

fun assign :: "'v gomap \<Rightarrow> string \<Rightarrow> 'v \<Rightarrow> 'v gomap option" where
  "assign NilMap k v = None"
| "assign (GoMap kvs) k v = Some (GoMap (AList.update k v kvs))"

text \<open>\<open>make(map[string]V)\<close>: a new, empty map.\<close>

definition makeMap :: "'v gomap" where
  "makeMap = GoMap []"

definition uniqueKeys :: "'v gomap \<Rightarrow> bool" where
  "uniqueKeys m = distinct (map fst (entries m))"

text \<open>
  \<open>for k, v := range m { body }\<close> over the entries of a map, threading the state that
  the body updates; a panic in the body ends the loop.
\<close>

fun forRange :: "(string \<times> 'v) list \<Rightarrow> ('s \<Rightarrow> string \<Rightarrow> 'v \<Rightarrow> 's option) \<Rightarrow> 's \<Rightarrow> 's option" where
  "forRange [] body s = Some s"
| "forRange ((k, v) # kvs) body s = Option.bind (body s k v) (forRange kvs body)"

record Metadata =
  Title :: string
  Description :: string
  Version :: string
  Language :: string
  Extends :: string
  Priority :: Priority

record Section =
  Order :: int
  Parent :: string
  MergeID :: string
  Content :: string
  MergePoints :: "string list"
  Priority :: Priority

record MergePoint =
  Placeholder :: string
  Default :: string
  Priority :: Priority

record MergeTarget =
  Strategy :: string
  Content :: string
  Priority :: Priority

datatype FileFormat = FormatTOML | FormatYAML | FormatMarkdown

record Config =
  Metadata :: Metadata
  Sections :: "Section gomap"
  MergePoints :: "MergePoint gomap"
  MergeTargets :: "MergeTarget gomap"
  SourceFile :: string
  SourceFormat :: FileFormat

definition zeroMetadata :: Metadata where
  "zeroMetadata = \<lparr>Title = [], Description = [], Version = [], Language = [],
     Extends = [], Metadata.Priority = zeroPriority\<rparr>"

text \<open>The zero values of \<open>Section\<close> and \<open>Config\<close>; the three maps of the latter are \<open>nil\<close>.\<close>

definition zeroSection :: Section where
  "zeroSection = \<lparr>Order = 0, Parent = [], MergeID = [], Section.Content = [],
     Section.MergePoints = [], Section.Priority = zeroPriority\<rparr>"

definition zeroConfig :: Config where
  "zeroConfig = \<lparr>Metadata = zeroMetadata, Sections = NilMap, Config.MergePoints = NilMap,
     MergeTargets = NilMap, SourceFile = [], SourceFormat = FormatTOML\<rparr>"

text \<open>A document is well formed when the keys of each of its maps are pairwise different.\<close>

definition wellFormed :: "Config \<Rightarrow> bool" where
  "wellFormed cfg \<longleftrightarrow>
     uniqueKeys (Sections cfg) \<and> uniqueKeys (Config.MergePoints cfg) \<and> uniqueKeys (MergeTargets cfg)"

section \<open>The merge engine, standard mode (package merger)\<close>

text \<open>
  The merger's \<open>debug\<close> flag only prints; it is left out. The accumulator
  \<open>result\<close> is passed in and returned. The documents of \<open>configs\<close> are values:
  the slice holds pointers to documents, and a \<open>nil\<close> pointer in it is outside the
  model.
\<close>

text \<open>The five blocks of \<open>mergeMetadata\<close>, on the accumulator's and the incoming metadata.\<close>

definition mergeTitle :: "Metadata \<Rightarrow> Metadata \<Rightarrow> Metadata" where
  "mergeTitle result incoming =
     (if Title result = [] \<or> TakesPrecedenceOverOrEqual (Metadata.Priority incoming) (Metadata.Priority result)
      then (if Title incoming \<noteq> []
            then result\<lparr>Title := Title incoming, Metadata.Priority := Metadata.Priority incoming\<rparr>
            else result)
      else result)"

definition mergeDescription :: "Metadata \<Rightarrow> Metadata \<Rightarrow> Metadata" where
  "mergeDescription result incoming =
     (if Description result = [] \<or> TakesPrecedenceOverOrEqual (Metadata.Priority incoming) (Metadata.Priority result)
      then (if Description incoming \<noteq> [] then result\<lparr>Description := Description incoming\<rparr> else result)
      else result)"

definition mergeVersion :: "Metadata \<Rightarrow> Metadata \<Rightarrow> Metadata" where
  "mergeVersion result incoming =
     (if Version result = [] \<or> TakesPrecedenceOverOrEqual (Metadata.Priority incoming) (Metadata.Priority result)
      then (if Version incoming \<noteq> [] then result\<lparr>Version := Version incoming\<rparr> else result)
      else result)"

definition mergeLanguage :: "Metadata \<Rightarrow> Metadata \<Rightarrow> Metadata" where
  "mergeLanguage result incoming =
     (if Language result = [] \<or> TakesPrecedenceOverOrEqual (Metadata.Priority incoming) (Metadata.Priority result)
      then (if Language incoming \<noteq> [] then result\<lparr>Language := Language incoming\<rparr> else result)
      else result)"

definition mergeExtends :: "Metadata \<Rightarrow> Metadata \<Rightarrow> Metadata" where
  "mergeExtends result incoming =
     (if Extends result = [] \<or> TakesPrecedenceOverOrEqual (Metadata.Priority incoming) (Metadata.Priority result)
      then (if Extends incoming \<noteq> [] then result\<lparr>Extends := Extends incoming\<rparr> else result)
      else result)"

definition mergeMetadata :: "Config \<Rightarrow> Config \<Rightarrow> Config" where
  "mergeMetadata result incoming =
     (let im = Metadata incoming;
          m1 = mergeTitle (Metadata result) im;
          m2 = mergeDescription m1 im;
          m3 = mergeVersion m2 im;
          m4 = mergeLanguage m3 im;
          m5 = mergeExtends m4 im
      in result\<lparr>Metadata := m5\<rparr>)"

text \<open>
  The condition under which \<open>mergeMetadata\<close> executes
  \<open>result.Metadata.Title = incoming.Metadata.Title\<close>.
\<close>

definition titleReplaced :: "Config \<Rightarrow> Config \<Rightarrow> bool" where
  "titleReplaced result incoming \<longleftrightarrow>
     (Title (Metadata result) = []
        \<or> TakesPrecedenceOverOrEqual (Metadata.Priority (Metadata incoming)) (Metadata.Priority (Metadata result)))
     \<and> Title (Metadata incoming) \<noteq> []"

text \<open>\<open>result.Sections[name] = section\<close> and its two siblings.\<close>

definition setSection :: "Config \<Rightarrow> string \<Rightarrow> Section \<Rightarrow> Config option" where
  "setSection result name section =
     map_option (\<lambda>m. result\<lparr>Sections := m\<rparr>) (assign (Sections result) name section)"

definition setMergePoint :: "Config \<Rightarrow> string \<Rightarrow> MergePoint \<Rightarrow> Config option" where
  "setMergePoint result name point =
     map_option (\<lambda>m. result\<lparr>Config.MergePoints := m\<rparr>) (assign (Config.MergePoints result) name point)"

definition setMergeTarget :: "Config \<Rightarrow> string \<Rightarrow> MergeTarget \<Rightarrow> Config option" where
  "setMergeTarget result name target =
     map_option (\<lambda>m. result\<lparr>MergeTargets := m\<rparr>) (assign (MergeTargets result) name target)"

definition mergeSections :: "Config \<Rightarrow> Config \<Rightarrow> Config option" where
  "mergeSections result incoming =
     forRange (entries (Sections incoming))
       (\<lambda>result name section.
          case lookup (Sections result) name of
            None \<Rightarrow> setSection result name section
          | Some existing \<Rightarrow>
              if TakesPrecedenceOverOrEqual (Section.Priority section) (Section.Priority existing)
              then setSection result name section
              else Some result)
       result"

definition mergeMergePoints :: "Config \<Rightarrow> Config \<Rightarrow> Config option" where
  "mergeMergePoints result incoming =
     forRange (entries (Config.MergePoints incoming))
       (\<lambda>result name point.
          case lookup (Config.MergePoints result) name of
            None \<Rightarrow> setMergePoint result name point
          | Some existing \<Rightarrow>
              if TakesPrecedenceOverOrEqual (MergePoint.Priority point) (MergePoint.Priority existing)
              then setMergePoint result name point
              else Some result)
       result"

definition mergeMergeTargets :: "Config \<Rightarrow> Config \<Rightarrow> Config option" where
  "mergeMergeTargets result incoming =
     forRange (entries (MergeTargets incoming))
       (\<lambda>result name target.
          case lookup (MergeTargets result) name of
            None \<Rightarrow> setMergeTarget result name target
          | Some existing \<Rightarrow>
              if TakesPrecedenceOverOrEqual (MergeTarget.Priority target) (MergeTarget.Priority existing)
              then setMergeTarget result name target
              else Some result)
       result"

text \<open>The loop of \<open>MergeAll\<close> over the documents, in standard mode.\<close>

fun mergeEach :: "Config \<Rightarrow> Config list \<Rightarrow> Config option" where
  "mergeEach result [] = Some result"
| "mergeEach result (cfg # cfgs) =
     do {
       r1 \<leftarrow> Some (mergeMetadata result cfg);
       r2 \<leftarrow> mergeSections r1 cfg;
       r3 \<leftarrow> mergeMergePoints r2 cfg;
       r4 \<leftarrow> mergeMergeTargets r3 cfg;
       mergeEach r4 cfgs
     }"

section \<open>The merge engine, template substitution mode (package merger)\<close>

definition containsPlaceholders :: "string \<Rightarrow> bool" where
  "containsPlaceholders content \<longleftrightarrow>
     Contains content ''<language-specific-'' \<and> Contains content ''</language-specific-''"

text \<open>
  \<open>findBaseTemplate\<close> returns a pointer to the first document with a section that
  contains placeholders. The pointer is modelled by the position of the document in
  \<open>configs\<close> together with the document.
\<close>

definition hasPlaceholderSection :: "Config \<Rightarrow> bool" where
  "hasPlaceholderSection cfg \<longleftrightarrow>
     list_ex (\<lambda>(name, section). containsPlaceholders (Section.Content section)) (entries (Sections cfg))"

fun findBaseTemplateFrom :: "nat \<Rightarrow> Config list \<Rightarrow> (nat \<times> Config) option" where
  "findBaseTemplateFrom i [] = None"
| "findBaseTemplateFrom i (cfg # cfgs) =
     (if hasPlaceholderSection cfg then Some (i, cfg) else findBaseTemplateFrom (Suc i) cfgs)"

definition findBaseTemplate :: "Config list \<Rightarrow> (nat \<times> Config) option" where
  "findBaseTemplate configs = findBaseTemplateFrom 0 configs"

definition containsTestCommands :: "string \<Rightarrow> bool" where
  "containsTestCommands content \<longleftrightarrow>
     Contains content ''Testing commands'' \<or> Contains content ''### Testing commands''
     \<or> Contains content ''test ./...''"

fun extractTestCommandsLoop :: "string list \<Rightarrow> bool \<Rightarrow> string list \<Rightarrow> string list" where
  "extractTestCommandsLoop [] inTestSection result = result"
| "extractTestCommandsLoop (line # lines) inTestSection result =
     (if Contains line ''Testing commands'' \<or> Contains line ''### Testing commands''
      then extractTestCommandsLoop lines True result
      else if inTestSection then
        (if HasPrefix line ''#'' \<and> \<not> Contains line ''Testing'' then result
         else if line = [] \<and> length result > 4 then result
         else if line \<noteq> [] then extractTestCommandsLoop lines inTestSection (result @ [line])
         else extractTestCommandsLoop lines inTestSection result)
      else extractTestCommandsLoop lines inTestSection result)"

definition extractTestCommands :: "string \<Rightarrow> string" where
  "extractTestCommands content =
     (let lines = Split content [CHR 0x0A]
      in Join (extractTestCommandsLoop lines False []) [CHR 0x0A])"

definition containsDocumentationStandards :: "string \<Rightarrow> bool" where
  "containsDocumentationStandards content \<longleftrightarrow>
     Contains content ''Documentation Standards'' \<or> Contains content ''### Documentation Standards''"

fun extractDocumentationStandardsLoop :: "string list \<Rightarrow> bool \<Rightarrow> nat \<Rightarrow> string list \<Rightarrow> string list" where
  "extractDocumentationStandardsLoop [] inDocSection codeBlockCount result = result"
| "extractDocumentationStandardsLoop (line # lines) inDocSection codeBlockCount result =
     (if Contains line ''Documentation Standards'' \<or> Contains line ''### Documentation Standards''
      then extractDocumentationStandardsLoop lines True codeBlockCount (result @ [[]])
      else if inDocSection then
        (let codeBlockCount = (if HasPrefix line ''```'' then codeBlockCount + 1 else codeBlockCount) in
         if codeBlockCount \<ge> 2 \<and> HasPrefix line ''```'' then result @ [line]
         else if HasPrefix line ''##'' \<and> \<not> Contains line ''Documentation'' then result
         else extractDocumentationStandardsLoop lines inDocSection codeBlockCount (result @ [line]))
      else extractDocumentationStandardsLoop lines inDocSection codeBlockCount result)"

definition extractDocumentationStandards :: "string \<Rightarrow> string" where
  "extractDocumentationStandards content =
     (let lines = Split content [CHR 0x0A]
      in TrimSpace (Join (extractDocumentationStandardsLoop lines False 0 []) [CHR 0x0A]))"

text \<open>
  The local \<open>replacements\<close> map of \<open>applyPlaceholderReplacements\<close>; reading a key
  that was never written gives the empty string.
\<close>

definition getReplacement :: "(string \<rightharpoonup> string) \<Rightarrow> string \<Rightarrow> string" where
  "getReplacement replacements k = (case replacements k of None \<Rightarrow> [] | Some v \<Rightarrow> v)"

definition collectFromSection :: "(string \<rightharpoonup> string) \<Rightarrow> Section \<Rightarrow> (string \<rightharpoonup> string)" where
  "collectFromSection replacements section =
     (let content = Section.Content section;
          replacements = (if containsTestCommands content
                          then replacements(''test-commands'' \<mapsto> extractTestCommands content)
                          else replacements);
          replacements = (if containsDocumentationStandards content
                          then replacements(''documentation-standards'' \<mapsto> extractDocumentationStandards content)
                          else replacements)
      in replacements)"

definition collectReplacements :: "Config list \<Rightarrow> (string \<rightharpoonup> string)" where
  "collectReplacements configs =
     fold (\<lambda>cfg replacements.
             fold (\<lambda>(name, section) replacements. collectFromSection replacements section)
               (entries (Sections cfg)) replacements)
       configs Map.empty"

text \<open>The body of the second loop: what becomes of the content of one section.\<close>

definition fillPlaceholders :: "(string \<rightharpoonup> string) \<Rightarrow> string \<Rightarrow> string" where
  "fillPlaceholders replacements content =
     (let content =
            (if getReplacement replacements ''test-commands'' \<noteq> []
             then replacePlaceholderBlock content
                    ''<language-specific-test-commands-here>''
                    ''</language-specific-test-commands-here>''
                    (getReplacement replacements ''test-commands'')
             else replacePlaceholderBlock content
                    ''<language-specific-test-commands-here>''
                    ''</language-specific-test-commands-here>''
                    []);
          content =
            (if getReplacement replacements ''documentation-standards'' \<noteq> []
             then replacePlaceholderBlock content
                    ''<language-specific-documentation-standards>''
                    ''</language-specific-documentation-standards>''
                    (getReplacement replacements ''documentation-standards'')
             else replacePlaceholderBlock content
                    ''<language-specific-documentation-standards>''
                    ''</language-specific-documentation-standards>''
                    [])
      in content)"

definition applyPlaceholderReplacements :: "Config \<Rightarrow> Config list \<Rightarrow> Config option" where
  "applyPlaceholderReplacements result configs =
     (let replacements = collectReplacements configs in
      forRange (entries (Sections result))
        (\<lambda>result name section.
           setSection result name
             (section\<lparr>Section.Content := fillPlaceholders replacements (Section.Content section)\<rparr>))
        result)"

text \<open>
  The last loop of \<open>mergeWithTemplate\<close>, over the documents with their positions;
  \<open>cfg != baseConfig\<close> compares pointers, that is positions. (A second pointer to the
  base document at another position would change nothing either: a priority never
  takes strict precedence over itself.)
\<close>

fun overrideTitle :: "nat \<Rightarrow> Config \<Rightarrow> (nat \<times> Config) list \<Rightarrow> Config" where
  "overrideTitle base result [] = result"
| "overrideTitle base result ((i, cfg) # cfgs) =
     overrideTitle base
       (if i \<noteq> base then
          (if TakesPrecedenceOverOrEqual (Metadata.Priority (Metadata cfg)) (Metadata.Priority (Metadata result))
           then
             (if Title (Metadata cfg) \<noteq> [] \<and> Title (Metadata cfg) \<noteq> Title (Metadata result)
              then
                (if TakesPrecedenceOver (Metadata.Priority (Metadata cfg)) (Metadata.Priority (Metadata result))
                 then result\<lparr>Metadata := (Metadata result)\<lparr>Title := Title (Metadata cfg)\<rparr>\<rparr>
                 else result)
              else result)
           else result)
        else result)
       cfgs"

definition mergeWithTemplate :: "Config \<Rightarrow> nat \<times> Config \<Rightarrow> Config list \<Rightarrow> Config option" where
  "mergeWithTemplate result base configs =
     (let baseConfig = snd base in
      do {
        r0 \<leftarrow> Some (result\<lparr>Metadata := Metadata baseConfig\<rparr>);
        r1 \<leftarrow> forRange (entries (Sections baseConfig)) setSection r0;
        r2 \<leftarrow> forRange (entries (Config.MergePoints baseConfig)) setMergePoint r1;
        r3 \<leftarrow> forRange (entries (MergeTargets baseConfig)) setMergeTarget r2;
        r4 \<leftarrow> applyPlaceholderReplacements r3 configs;
        Some (overrideTitle (fst base) r4 (enumerate 0 configs))
      })"

section \<open>MergeAll\<close>

text \<open>
  The error that \<open>MergeAll\<close> returns for an empty sequence, the run-time panic of an
  assignment to an entry of a \<open>nil\<close> map, the error of \<open>parseMarkdown\<close> and the
  errors of \<open>ParseConfig\<close>, which wrap the message of the underlying parser.
\<close>

datatype error =
    NoConfigurations
  | NilMapAssignment
  | FrontmatterError string
  | TOMLParseError string
  | YAMLParseError string
  | MarkdownParseError string

definition newResult :: Config where
  "newResult = \<lparr>Metadata = zeroMetadata, Sections = makeMap, Config.MergePoints = makeMap,
     MergeTargets = makeMap, SourceFile = [], SourceFormat = FormatTOML\<rparr>"

definition MergeAll :: "Config list \<Rightarrow> error + Config" where
  "MergeAll configs =
     (if length configs = 0 then Inl NoConfigurations
      else
        let result = newResult;
            merged = (case findBaseTemplate configs of
                        Some baseConfig \<Rightarrow> mergeWithTemplate result baseConfig configs
                      | None \<Rightarrow> mergeEach result configs)
        in case merged of None \<Rightarrow> Inl NilMapAssignment | Some result \<Rightarrow> Inr result)"

section \<open>The format normalizer (package config)\<close>

text \<open>
  The TOML and YAML decoders and the Unicode case tables are libraries outside the
  repository. They are parameters of the model: a decoder maps the input to its error
  message or to what it leaves in the zero-valued destination it was given.
  \<open>yamlValue\<close> is what \<open>yaml.Unmarshal\<close> stores in a
  \<open>map[string]interface{}\<close>, as far as \<open>parseMarkdown\<close> inspects it.
\<close>

datatype yamlValue =
    YamlString string
  | YamlInt int
  | YamlMap "(string \<times> yamlValue) list"
  | YamlOther

record library =
  tomlUnmarshal :: "string \<Rightarrow> string + Config"
  yamlUnmarshal :: "string \<Rightarrow> string + Config"
  yamlUnmarshalMap :: "string \<Rightarrow> string + (string \<times> yamlValue) list"
  ToLower :: "string \<Rightarrow> string"

text \<open>The type assertions \<open>v.(string)\<close>, \<open>v.(int)\<close> and \<open>v.(map[string]interface{})\<close>.\<close>

fun asString :: "yamlValue option \<Rightarrow> string option" where
  "asString (Some (YamlString s)) = Some s"
| "asString _ = None"

fun asInt :: "yamlValue option \<Rightarrow> int option" where
  "asInt (Some (YamlInt i)) = Some i"
| "asInt _ = None"

fun asMap :: "yamlValue option \<Rightarrow> (string \<times> yamlValue) list option" where
  "asMap (Some (YamlMap m)) = Some m"
| "asMap _ = None"

text \<open>The frontmatter fields of \<open>parseMarkdown\<close>, on the metadata being filled.\<close>

definition frontmatterFields :: "(string \<times> yamlValue) list \<Rightarrow> Metadata \<Rightarrow> Metadata" where
  "frontmatterFields metadata md =
     (let md = (case asString (map_of metadata ''title'') of
                  Some title \<Rightarrow> md\<lparr>Title := title\<rparr> | None \<Rightarrow> md);
          md = (case asString (map_of metadata ''description'') of
                  Some description \<Rightarrow> md\<lparr>Description := description\<rparr> | None \<Rightarrow> md);
          md = (case asString (map_of metadata ''version'') of
                  Some version \<Rightarrow> md\<lparr>Version := version\<rparr> | None \<Rightarrow> md);
          md = (case asString (map_of metadata ''language'') of
                  Some language \<Rightarrow> md\<lparr>Language := language\<rparr> | None \<Rightarrow> md)
      in md)"

definition frontmatterPriority :: "library \<Rightarrow> (string \<times> yamlValue) list \<Rightarrow> Priority \<Rightarrow> Priority" where
  "frontmatterPriority lib metadata p =
     (case asMap (map_of metadata ''priority'') of
        Some priorityMap \<Rightarrow>
          (case asString (map_of priorityMap ''type'') of
             Some priorityType \<Rightarrow>
               (case asInt (map_of priorityMap ''value'') of
                  Some priorityValue \<Rightarrow>
                    (let p = p\<lparr>Value := priorityValue\<rparr>;
                         lower = ToLower lib priorityType
                     in if lower = ''explicit'' then p\<lparr>Type := PriorityExplicit\<rparr>
                        else if lower = ''relative'' then p\<lparr>Type := PriorityRelative\<rparr>
                        else p)
                | None \<Rightarrow> p)
           | None \<Rightarrow> p)
      | None \<Rightarrow> p)"

text \<open>
  \<open>if config.Sections == nil { config.Sections = make(...) }\<close> followed by
  \<open>config.Sections["content"] = Section{Order: 1, Content: content}\<close>.
\<close>

definition setContentSection :: "Config \<Rightarrow> string \<Rightarrow> error + Config" where
  "setContentSection config content =
     (let config = (if Sections config = NilMap then config\<lparr>Sections := makeMap\<rparr> else config)
      in case setSection config ''content'' (zeroSection\<lparr>Order := 1, Section.Content := content\<rparr>) of
           None \<Rightarrow> Inl NilMapAssignment
         | Some config \<Rightarrow> Inr config)"

definition parseMarkdown :: "library \<Rightarrow> string \<Rightarrow> error + Config" where
  "parseMarkdown lib data =
     (let config = zeroConfig;
          content = data
      in
      if HasPrefix content ''---'' then
        (let parts = SplitN content ''---'' 3 in
         if length parts \<ge> 3 then
           (let frontmatter = TrimSpace (parts ! 1) in
            case yamlUnmarshalMap lib frontmatter of
              Inl err \<Rightarrow> Inl (FrontmatterError err)
            | Inr metadata \<Rightarrow>
                (let md = frontmatterFields metadata (Metadata config);
                     md = md\<lparr>Metadata.Priority := frontmatterPriority lib metadata (Metadata.Priority md)\<rparr>;
                     config = config\<lparr>Metadata := md\<rparr>;
                     markdownContent = TrimSpace (parts ! 2)
                 in if markdownContent \<noteq> [] then setContentSection config markdownContent
                    else Inr config))
         else Inr config)
      else
        (case setContentSection config (TrimSpace content) of
           Inl err \<Rightarrow> Inl err
         | Inr config \<Rightarrow>
             if Title (Metadata config) = []
             then Inr (config\<lparr>Metadata := (Metadata config)\<lparr>Title := ''Untitled Document''\<rparr>\<rparr>)
             else Inr config))"

text \<open>
  \<open>ParseConfig\<close>. The \<open>default\<close> branch of its switch is for a \<open>FileFormat\<close> other
  than the three declared ones; the datatype has no such value.
\<close>

definition ParseConfig :: "library \<Rightarrow> string \<Rightarrow> FileFormat \<Rightarrow> error + Config" where
  "ParseConfig lib data format =
     (let parsed =
            (case format of
               FormatTOML \<Rightarrow>
                 (case tomlUnmarshal lib data of
                    Inl err \<Rightarrow> Inl (TOMLParseError err)
                  | Inr config \<Rightarrow> Inr config)
             | FormatYAML \<Rightarrow>
                 (case yamlUnmarshal lib data of
                    Inl err \<Rightarrow> Inl (YAMLParseError err)
                  | Inr config \<Rightarrow> Inr config)
             | FormatMarkdown \<Rightarrow>
                 (case parseMarkdown lib data of
                    Inl (FrontmatterError err) \<Rightarrow> Inl (MarkdownParseError err)
                  | Inl err \<Rightarrow> Inl err
                  | Inr config \<Rightarrow> Inr config))
      in case parsed of
           Inl err \<Rightarrow> Inl err
         | Inr config \<Rightarrow>
             (let config = (if Sections config = NilMap
                            then config\<lparr>Sections := makeMap\<rparr> else config);
                  config = (if Config.MergePoints config = NilMap
                            then config\<lparr>Config.MergePoints := makeMap\<rparr> else config);
                  config = (if MergeTargets config = NilMap
                            then config\<lparr>MergeTargets := makeMap\<rparr> else config);
                  config = config\<lparr>SourceFormat := format\<rparr>
              in Inr config))"

section \<open>Auxiliary functions: what the range loops do to a table\<close>

text \<open>
  The table that the loops of \<open>mergeSections\<close>, \<open>mergeMergePoints\<close> and
  \<open>mergeMergeTargets\<close> leave behind, and the table left by a loop that stores
  \<open>f v\<close> under \<open>k\<close> for every entry \<open>(k, v)\<close> it visits.
\<close>

fun mergeEntries :: "('v \<Rightarrow> Priority) \<Rightarrow> (string \<times> 'v) list \<Rightarrow> (string \<times> 'v) list \<Rightarrow> (string \<times> 'v) list" where
  "mergeEntries prio [] xs = xs"
| "mergeEntries prio ((k, v) # kvs) xs =
     mergeEntries prio kvs
       (case map_of xs k of
          None \<Rightarrow> AList.update k v xs
        | Some existing \<Rightarrow>
            if TakesPrecedenceOverOrEqual (prio v) (prio existing) then AList.update k v xs else xs)"

fun storeEntries :: "('v \<Rightarrow> 'v) \<Rightarrow> (string \<times> 'v) list \<Rightarrow> (string \<times> 'v) list \<Rightarrow> (string \<times> 'v) list" where
  "storeEntries f [] xs = xs"
| "storeEntries f ((k, v) # kvs) xs = storeEntries f kvs (AList.update k (f v) xs)"

text \<open>The maps of a document have been made: none of them is \<open>nil\<close>.\<close>

definition mapsMade :: "Config \<Rightarrow> bool" where
  "mapsMade cfg \<longleftrightarrow>
     Sections cfg \<noteq> NilMap \<and> Config.MergePoints cfg \<noteq> NilMap \<and> MergeTargets cfg \<noteq> NilMap"

section \<open>Properties of the string functions\<close>

lemma indexFrom_range: "indexFrom i substr s = - 1 \<or> int i \<le> indexFrom i substr s"
proof (induction s arbitrary: i)
  case Nil
  show ?case by simp
next
  case (Cons c cs)
  from Cons.IH [of "Suc i"] show ?case by auto
qed

lemma indexFrom_absent: "indexFrom i substr s = - 1 \<longleftrightarrow> \<not> sublist substr s"
proof (induction s arbitrary: i)
  case Nil
  show ?case by simp
next
  case (Cons c cs)
  show ?case
  proof (cases "prefix substr (c # cs)")
    case True
    then have "sublist substr (c # cs)" by (rule prefix_imp_sublist)
    with True show ?thesis by simp
  next
    case False
    with Cons.IH [of "Suc i"] show ?thesis by (simp add: sublist_Cons_right)
  qed
qed

lemma Index_absent: "Index s substr = - 1 \<longleftrightarrow> \<not> sublist substr s"
  unfolding Index_def by (rule indexFrom_absent)

lemma Index_range: "Index s substr = - 1 \<or> 0 \<le> Index s substr"
  unfolding Index_def using indexFrom_range [of 0 substr s] by simp

lemma Contains_sublist: "Contains s substr \<longleftrightarrow> sublist substr s"
  using Index_absent [of s substr] Index_range [of s substr]
  unfolding Contains_def by auto

section \<open>The priority comparator\<close>

text \<open>
  What the tie-inclusive comparison computes: the strict comparison, or the same kind
  with the same magnitude.
\<close>

lemma TakesPrecedenceOverOrEqual_iff:
  "TakesPrecedenceOverOrEqual a b \<longleftrightarrow>
     TakesPrecedenceOver a b \<or> (Type a = Type b \<and> Value a = Value b)"
  unfolding TakesPrecedenceOverOrEqual_def TakesPrecedenceOver_def
  by (cases "Type a"; cases "Type b") auto

text \<open>
  Claim C1. \<open>TakesPrecedenceOver a b\<close> holds exactly when \<open>a\<close> is explicit and
  \<open>b\<close> is not, or both have the same kind and \<open>a\<close> has the strictly greater
  magnitude, or \<open>a\<close> is relative and \<open>b\<close> is none. In every other case, among
  them \<open>a = b\<close>, it is false.
\<close>

theorem TakesPrecedenceOver_iff:
  "(TakesPrecedenceOver a b \<longleftrightarrow>
     (Type a = PriorityExplicit \<and> Type b \<noteq> PriorityExplicit)
     \<or> (Type a = Type b \<and> Value a > Value b)
     \<or> (Type a = PriorityRelative \<and> Type b = PriorityNone))
   \<and> \<not> TakesPrecedenceOver a a"
  unfolding TakesPrecedenceOver_def
  by (cases "Type a"; cases "Type b") auto

text \<open>
  Claim C3. The claim says that the tie-inclusive comparison is true whenever both kinds
  are none, whatever the stored magnitudes. The code compares the magnitudes of two
  priorities of the same kind before it reaches its none-against-none branch, so that
  branch never runs: a none priority with magnitude 3 does not outrank-or-tie a none
  priority with magnitude 5.
\<close>

theorem TakesPrecedenceOverOrEqual_none_none_magnitudes:
  "TakesPrecedenceOverOrEqual \<lparr>Type = PriorityNone, Value = 3\<rparr>
     \<lparr>Type = PriorityNone, Value = 5\<rparr> = False"
  by (simp add: TakesPrecedenceOverOrEqual_def)

section \<open>Merge strategies\<close>

text \<open>
  Claim C8. \<open>ApplyStrategy\<close> with \<open>replace\<close> returns the new content; with
  \<open>append\<close> it returns the new content when the old one is empty and otherwise old,
  newline, new; with \<open>prepend\<close> it returns the new content when the old one is empty
  and otherwise new, newline, old; any other tag behaves as \<open>replace\<close>.
\<close>

theorem ApplyStrategy_cases:
  "ApplyStrategy ''replace'' old new = new
   \<and> ApplyStrategy ''append'' old new = (if old = [] then new else old @ [CHR 0x0A] @ new)
   \<and> ApplyStrategy ''prepend'' old new = (if old = [] then new else new @ [CHR 0x0A] @ old)
   \<and> (strategy \<notin> {''replace'', ''append'', ''prepend''} \<longrightarrow>
        ApplyStrategy strategy old new = ApplyStrategy ''replace'' old new)"
  by (simp add: ApplyStrategy_def StrategyReplace_def StrategyAppend_def StrategyPrepend_def)

theorem ApplyStrategy_cases_witness:
  "''invalid'' \<notin> {''replace'', ''append'', ''prepend''}
   \<and> ApplyStrategy ''invalid'' ''old'' ''new'' = ''new''
   \<and> ApplyStrategy ''append'' ''old'' ''new'' = ''old'' @ [CHR 0x0A] @ ''new''
   \<and> ApplyStrategy ''prepend'' [] ''new'' = ''new''"
  using ApplyStrategy_cases [of "''old''" "''new''" "''invalid''"]
    ApplyStrategy_cases [of "[]" "''new''" "''invalid''"]
  by simp

section \<open>Placeholder blocks\<close>

text \<open>
  Claim C10. When the opening tag or the closing tag does not occur in the content,
  \<open>replacePlaceholderBlock\<close> returns the content unchanged.
\<close>

theorem replacePlaceholderBlock_tag_absent:
  assumes "\<not> sublist openTag content \<or> \<not> sublist closeTag content"
  shows "replacePlaceholderBlock content openTag closeTag replacement = content"
  using assms Index_absent [of content openTag] Index_absent [of content closeTag]
  unfolding replacePlaceholderBlock_def Let_def by auto

theorem replacePlaceholderBlock_tag_absent_witness:
  "\<not> sublist ''</a>'' ''x<a>y''
   \<and> replacePlaceholderBlock ''x<a>y'' ''<a>'' ''</a>'' ''new'' = ''x<a>y''"
proof -
  have h: "\<not> sublist ''</a>'' ''x<a>y''"
    using Index_absent [of "''x<a>y''" "''</a>''"] by (simp add: Index_def)
  then have "\<not> sublist ''<a>'' ''x<a>y'' \<or> \<not> sublist ''</a>'' ''x<a>y''" ..
  from replacePlaceholderBlock_tag_absent [OF this, of "''new''"] h show ?thesis by simp
qed

section \<open>The range loops on tables\<close>

lemma map_of_mergeEntries:
  "distinct (map fst kvs) \<Longrightarrow>
   map_of (mergeEntries prio kvs xs) k =
     (case map_of kvs k of
        None \<Rightarrow> map_of xs k
      | Some v \<Rightarrow>
          (case map_of xs k of
             None \<Rightarrow> Some v
           | Some existing \<Rightarrow>
               if TakesPrecedenceOverOrEqual (prio v) (prio existing) then Some v else Some existing))"
proof (induction kvs arbitrary: xs)
  case Nil
  show ?case by simp
next
  case (Cons kv kvs)
  obtain k' v' where kv: "kv = (k', v')" by (cases kv)
  from Cons.prems kv have d: "distinct (map fst kvs)" and nin: "k' \<notin> fst ` set kvs" by auto
  from nin have none: "map_of kvs k' = None" by (simp add: map_of_eq_None_iff)
  show ?case
  proof (cases "k = k'")
    case True
    with none Cons.IH [OF d] kv show ?thesis
      by (auto simp: update_conv' split: option.splits)
  next
    case False
    with Cons.IH [OF d] kv show ?thesis
      by (auto simp: update_conv' split: option.splits)
  qed
qed

lemma map_of_storeEntries:
  "distinct (map fst kvs) \<Longrightarrow>
   map_of (storeEntries f kvs xs) k =
     (case map_of kvs k of None \<Rightarrow> map_of xs k | Some v \<Rightarrow> Some (f v))"
proof (induction kvs arbitrary: xs)
  case Nil
  show ?case by simp
next
  case (Cons kv kvs)
  obtain k' v' where kv: "kv = (k', v')" by (cases kv)
  from Cons.prems kv have d: "distinct (map fst kvs)" and nin: "k' \<notin> fst ` set kvs" by auto
  from nin have none: "map_of kvs k' = None" by (simp add: map_of_eq_None_iff)
  show ?case
  proof (cases "k = k'")
    case True
    with none Cons.IH [OF d] kv show ?thesis
      by (auto simp: update_conv' split: option.splits)
  next
    case False
    with Cons.IH [OF d] kv show ?thesis
      by (auto simp: update_conv' split: option.splits)
  qed
qed

lemma distinct_storeEntries:
  "distinct (map fst xs) \<Longrightarrow> distinct (map fst (storeEntries f kvs xs))"
  by (induction kvs arbitrary: xs) (auto simp: distinct_update)

lemma map_of_storeEntries_same:
  assumes "distinct (map fst xs)"
  shows "map_of (storeEntries f xs xs) k = map_option f (map_of xs k)"
  using map_of_storeEntries [OF assms, of f xs k] by (cases "map_of xs k") auto

lemma forRange_mergeSections:
  "Sections r = GoMap xs \<Longrightarrow>
   forRange kvs
       (\<lambda>result name section.
          case lookup (Sections result) name of
            None \<Rightarrow> setSection result name section
          | Some existing \<Rightarrow>
              if TakesPrecedenceOverOrEqual (Section.Priority section) (Section.Priority existing)
              then setSection result name section
              else Some result) r
   = Some (r\<lparr>Sections := GoMap (mergeEntries Section.Priority kvs xs)\<rparr>)"
proof (induction kvs arbitrary: r xs)
  case Nil
  then show ?case by simp
next
  case (Cons kv kvs)
  obtain k v where kv: "kv = (k, v)" by (cases kv)
  let ?xs' = "case map_of xs k of
          None \<Rightarrow> AList.update k v xs
        | Some existing \<Rightarrow>
            if TakesPrecedenceOverOrEqual (Section.Priority v) (Section.Priority existing)
            then AList.update k v xs else xs"
  let ?r' = "r\<lparr>Sections := GoMap ?xs'\<rparr>"
  have step: "(case lookup (Sections r) k of
            None \<Rightarrow> setSection r k v
          | Some existing \<Rightarrow>
              if TakesPrecedenceOverOrEqual (Section.Priority v) (Section.Priority existing)
              then setSection r k v
              else Some r) = Some ?r'"
    using Cons.prems by (auto simp: lookup_def setSection_def split: option.splits)
  have "Sections ?r' = GoMap ?xs'" by simp
  from Cons.IH [OF this] step kv show ?case by simp
qed

lemma forRange_mergeMergePoints:
  "Config.MergePoints r = GoMap xs \<Longrightarrow>
   forRange kvs
       (\<lambda>result name point.
          case lookup (Config.MergePoints result) name of
            None \<Rightarrow> setMergePoint result name point
          | Some existing \<Rightarrow>
              if TakesPrecedenceOverOrEqual (MergePoint.Priority point) (MergePoint.Priority existing)
              then setMergePoint result name point
              else Some result) r
   = Some (r\<lparr>Config.MergePoints := GoMap (mergeEntries MergePoint.Priority kvs xs)\<rparr>)"
proof (induction kvs arbitrary: r xs)
  case Nil
  then show ?case by simp
next
  case (Cons kv kvs)
  obtain k v where kv: "kv = (k, v)" by (cases kv)
  let ?xs' = "case map_of xs k of
          None \<Rightarrow> AList.update k v xs
        | Some existing \<Rightarrow>
            if TakesPrecedenceOverOrEqual (MergePoint.Priority v) (MergePoint.Priority existing)
            then AList.update k v xs else xs"
  let ?r' = "r\<lparr>Config.MergePoints := GoMap ?xs'\<rparr>"
  have step: "(case lookup (Config.MergePoints r) k of
            None \<Rightarrow> setMergePoint r k v
          | Some existing \<Rightarrow>
              if TakesPrecedenceOverOrEqual (MergePoint.Priority v) (MergePoint.Priority existing)
              then setMergePoint r k v
              else Some r) = Some ?r'"
    using Cons.prems by (auto simp: lookup_def setMergePoint_def split: option.splits)
  have "Config.MergePoints ?r' = GoMap ?xs'" by simp
  from Cons.IH [OF this] step kv show ?case by simp
qed

lemma forRange_mergeMergeTargets:
  "MergeTargets r = GoMap xs \<Longrightarrow>
   forRange kvs
       (\<lambda>result name target.
          case lookup (MergeTargets result) name of
            None \<Rightarrow> setMergeTarget result name target
          | Some existing \<Rightarrow>
              if TakesPrecedenceOverOrEqual (MergeTarget.Priority target) (MergeTarget.Priority existing)
              then setMergeTarget result name target
              else Some result) r
   = Some (r\<lparr>MergeTargets := GoMap (mergeEntries MergeTarget.Priority kvs xs)\<rparr>)"
proof (induction kvs arbitrary: r xs)
  case Nil
  then show ?case by simp
next
  case (Cons kv kvs)
  obtain k v where kv: "kv = (k, v)" by (cases kv)
  let ?xs' = "case map_of xs k of
          None \<Rightarrow> AList.update k v xs
        | Some existing \<Rightarrow>
            if TakesPrecedenceOverOrEqual (MergeTarget.Priority v) (MergeTarget.Priority existing)
            then AList.update k v xs else xs"
  let ?r' = "r\<lparr>MergeTargets := GoMap ?xs'\<rparr>"
  have step: "(case lookup (MergeTargets r) k of
            None \<Rightarrow> setMergeTarget r k v
          | Some existing \<Rightarrow>
              if TakesPrecedenceOverOrEqual (MergeTarget.Priority v) (MergeTarget.Priority existing)
              then setMergeTarget r k v
              else Some r) = Some ?r'"
    using Cons.prems by (auto simp: lookup_def setMergeTarget_def split: option.splits)
  have "MergeTargets ?r' = GoMap ?xs'" by simp
  from Cons.IH [OF this] step kv show ?case by simp
qed

lemma forRange_storeSections:
  "Sections r = GoMap xs \<Longrightarrow>
   forRange kvs (\<lambda>result name section. setSection result name (f section)) r
   = Some (r\<lparr>Sections := GoMap (storeEntries f kvs xs)\<rparr>)"
proof (induction kvs arbitrary: r xs)
  case Nil
  then show ?case by simp
next
  case (Cons kv kvs)
  obtain k v where kv: "kv = (k, v)" by (cases kv)
  let ?r' = "r\<lparr>Sections := GoMap (AList.update k (f v) xs)\<rparr>"
  have step: "setSection r k (f v) = Some ?r'"
    using Cons.prems by (simp add: setSection_def)
  have "Sections ?r' = GoMap (AList.update k (f v) xs)" by simp
  from Cons.IH [OF this] step kv show ?case by simp
qed

lemma forRange_storeMergePoints:
  "Config.MergePoints r = GoMap xs \<Longrightarrow>
   forRange kvs setMergePoint r
   = Some (r\<lparr>Config.MergePoints := GoMap (storeEntries (\<lambda>v. v) kvs xs)\<rparr>)"
proof (induction kvs arbitrary: r xs)
  case Nil
  then show ?case by simp
next
  case (Cons kv kvs)
  obtain k v where kv: "kv = (k, v)" by (cases kv)
  let ?r' = "r\<lparr>Config.MergePoints := GoMap (AList.update k v xs)\<rparr>"
  have step: "setMergePoint r k v = Some ?r'"
    using Cons.prems by (simp add: setMergePoint_def)
  have "Config.MergePoints ?r' = GoMap (AList.update k v xs)" by simp
  from Cons.IH [OF this] step kv show ?case by simp
qed

lemma forRange_storeMergeTargets:
  "MergeTargets r = GoMap xs \<Longrightarrow>
   forRange kvs setMergeTarget r
   = Some (r\<lparr>MergeTargets := GoMap (storeEntries (\<lambda>v. v) kvs xs)\<rparr>)"
proof (induction kvs arbitrary: r xs)
  case Nil
  then show ?case by simp
next
  case (Cons kv kvs)
  obtain k v where kv: "kv = (k, v)" by (cases kv)
  let ?r' = "r\<lparr>MergeTargets := GoMap (AList.update k v xs)\<rparr>"
  have step: "setMergeTarget r k v = Some ?r'"
    using Cons.prems by (simp add: setMergeTarget_def)
  have "MergeTargets ?r' = GoMap (AList.update k v xs)" by simp
  from Cons.IH [OF this] step kv show ?case by simp
qed

section \<open>The steps of the merge engine\<close>

lemma mergeMetadata_maps:
  "Sections (mergeMetadata r cfg) = Sections r"
  "Config.MergePoints (mergeMetadata r cfg) = Config.MergePoints r"
  "MergeTargets (mergeMetadata r cfg) = MergeTargets r"
  by (simp_all add: mergeMetadata_def Let_def)

text \<open>One document in standard mode, on an accumulator whose maps have been made.\<close>


lemma gomap_not_nil: "m \<noteq> NilMap \<longleftrightarrow> (\<exists>xs. m = GoMap xs)"
  by (cases m) auto

lemma mapsMade_iff:
  "mapsMade r \<longleftrightarrow> (\<exists>a b c. Sections r = GoMap a \<and> Config.MergePoints r = GoMap b \<and> MergeTargets r = GoMap c)"
  unfolding mapsMade_def gomap_not_nil by blast



lemma mergeEach_Cons:
  assumes "Sections r = GoMap a" "Config.MergePoints r = GoMap b" "MergeTargets r = GoMap c"
  shows "mergeEach r (cfg # cfgs) =
     mergeEach
       ((mergeMetadata r cfg)
          \<lparr>Sections := GoMap (mergeEntries Section.Priority (entries (Sections cfg)) a),
           Config.MergePoints := GoMap (mergeEntries MergePoint.Priority (entries (Config.MergePoints cfg)) b),
           MergeTargets := GoMap (mergeEntries MergeTarget.Priority (entries (MergeTargets cfg)) c)\<rparr>)
       cfgs"
proof -
  let ?r1 = "mergeMetadata r cfg"
  have s1: "Sections ?r1 = GoMap a" using assms by (simp add: mergeMetadata_maps)
  let ?r2 = "?r1\<lparr>Sections := GoMap (mergeEntries Section.Priority (entries (Sections cfg)) a)\<rparr>"
  have e2: "mergeSections ?r1 cfg = Some ?r2"
    unfolding mergeSections_def by (rule forRange_mergeSections [OF s1])
  have s2: "Config.MergePoints ?r2 = GoMap b" using assms by (simp add: mergeMetadata_maps)
  let ?r3 = "?r2\<lparr>Config.MergePoints := GoMap (mergeEntries MergePoint.Priority (entries (Config.MergePoints cfg)) b)\<rparr>"
  have e3: "mergeMergePoints ?r2 cfg = Some ?r3"
    unfolding mergeMergePoints_def by (rule forRange_mergeMergePoints [OF s2])
  have s3: "MergeTargets ?r3 = GoMap c" using assms by (simp add: mergeMetadata_maps)
  let ?r4 = "?r3\<lparr>MergeTargets := GoMap (mergeEntries MergeTarget.Priority (entries (MergeTargets cfg)) c)\<rparr>"
  have e4: "mergeMergeTargets ?r3 cfg = Some ?r4"
    unfolding mergeMergeTargets_def by (rule forRange_mergeMergeTargets [OF s3])
  have "mergeEach r (cfg # cfgs) = mergeEach ?r4 cfgs"
    by (simp only: mergeEach.simps e2 e3 e4 Option.bind.simps)
  then show ?thesis .
qed
lemma mergeEach_mapsMade:
  "mapsMade r \<Longrightarrow> \<exists>r'. mergeEach r cfgs = Some r' \<and> mapsMade r'"
proof (induction cfgs arbitrary: r)
  case Nil
  then show ?case by simp
next
  case (Cons cfg cfgs)
  from Cons.prems obtain a b c
    where abc: "Sections r = GoMap a" "Config.MergePoints r = GoMap b" "MergeTargets r = GoMap c"
    unfolding mapsMade_iff by blast
  have "mapsMade ((mergeMetadata r cfg)
          \<lparr>Sections := GoMap (mergeEntries Section.Priority (entries (Sections cfg)) a),
           Config.MergePoints := GoMap (mergeEntries MergePoint.Priority (entries (Config.MergePoints cfg)) b),
           MergeTargets := GoMap (mergeEntries MergeTarget.Priority (entries (MergeTargets cfg)) c)\<rparr>)"
    by (simp add: mapsMade_def)
  from Cons.IH [OF this] show ?case
    by (simp only: mergeEach_Cons [OF abc])
qed

text \<open>Template mode, on an accumulator whose maps have been made.\<close>

lemma overrideTitle_maps:
  "Sections (overrideTitle i r ics) = Sections r
   \<and> Config.MergePoints (overrideTitle i r ics) = Config.MergePoints r
   \<and> MergeTargets (overrideTitle i r ics) = MergeTargets r"
  by (induction i r ics rule: overrideTitle.induct) auto

lemma mergeWithTemplate_eq:
  assumes "Sections r = GoMap a" "Config.MergePoints r = GoMap b" "MergeTargets r = GoMap c"
  shows "mergeWithTemplate r (i, base) configs =
     Some (overrideTitle i
       (r\<lparr>Metadata := Metadata base,
          Sections := GoMap
            (storeEntries
               (\<lambda>section. section\<lparr>Section.Content :=
                    fillPlaceholders (collectReplacements configs) (Section.Content section)\<rparr>)
               (storeEntries (\<lambda>v. v) (entries (Sections base)) a)
               (storeEntries (\<lambda>v. v) (entries (Sections base)) a)),
          Config.MergePoints := GoMap (storeEntries (\<lambda>v. v) (entries (Config.MergePoints base)) b),
          MergeTargets := GoMap (storeEntries (\<lambda>v. v) (entries (MergeTargets base)) c)\<rparr>)
       (enumerate 0 configs))"
proof -
  let ?r0 = "r\<lparr>Metadata := Metadata base\<rparr>"
  let ?a1 = "storeEntries (\<lambda>v. v) (entries (Sections base)) a"
  let ?r1 = "?r0\<lparr>Sections := GoMap ?a1\<rparr>"
  have e1: "forRange (entries (Sections base)) setSection ?r0 = Some ?r1"
    using forRange_storeSections [of ?r0 a "entries (Sections base)" "\<lambda>v. v"] assms by simp
  let ?r2 = "?r1\<lparr>Config.MergePoints := GoMap (storeEntries (\<lambda>v. v) (entries (Config.MergePoints base)) b)\<rparr>"
  have e2: "forRange (entries (Config.MergePoints base)) setMergePoint ?r1 = Some ?r2"
    using forRange_storeMergePoints [of ?r1 b] assms by simp
  let ?r3 = "?r2\<lparr>MergeTargets := GoMap (storeEntries (\<lambda>v. v) (entries (MergeTargets base)) c)\<rparr>"
  have e3: "forRange (entries (MergeTargets base)) setMergeTarget ?r2 = Some ?r3"
    using forRange_storeMergeTargets [of ?r2 c] assms by simp
  let ?f = "\<lambda>section. section\<lparr>Section.Content :=
                    fillPlaceholders (collectReplacements configs) (Section.Content section)\<rparr>"
  let ?r4 = "?r3\<lparr>Sections := GoMap (storeEntries ?f ?a1 ?a1)\<rparr>"
  have s3: "Sections ?r3 = GoMap ?a1" by simp
  have e4: "applyPlaceholderReplacements ?r3 configs = Some ?r4"
    unfolding applyPlaceholderReplacements_def Let_def s3 entries.simps
    by (rule forRange_storeSections [OF s3])
  have "?r4 = r\<lparr>Metadata := Metadata base,
          Sections := GoMap (storeEntries ?f ?a1 ?a1),
          Config.MergePoints := GoMap (storeEntries (\<lambda>v. v) (entries (Config.MergePoints base)) b),
          MergeTargets := GoMap (storeEntries (\<lambda>v. v) (entries (MergeTargets base)) c)\<rparr>"
    by simp
  with e1 e2 e3 e4 show ?thesis
    unfolding mergeWithTemplate_def Let_def
    by (simp only: Option.bind.simps fst_conv snd_conv)
qed

section \<open>MergeAll in its two modes\<close>

lemma findBaseTemplateFrom_None:
  "findBaseTemplateFrom i configs = None \<longleftrightarrow> list_all (\<lambda>cfg. \<not> hasPlaceholderSection cfg) configs"
  by (induction configs arbitrary: i) auto

lemma findBaseTemplate_None:
  "findBaseTemplate configs = None \<longleftrightarrow> list_all (\<lambda>cfg. \<not> hasPlaceholderSection cfg) configs"
  unfolding findBaseTemplate_def by (rule findBaseTemplateFrom_None)

lemma findBaseTemplateFrom_Some:
  "findBaseTemplateFrom i configs = Some (j, base) \<Longrightarrow>
     i \<le> j \<and> j - i < length configs \<and> configs ! (j - i) = base \<and> hasPlaceholderSection base"
proof (induction configs arbitrary: i)
  case Nil
  then show ?case by simp
next
  case (Cons cfg cfgs)
  show ?case
  proof (cases "hasPlaceholderSection cfg")
    case True
    with Cons.prems show ?thesis by simp
  next
    case False
    with Cons.prems have "findBaseTemplateFrom (Suc i) cfgs = Some (j, base)" by simp
    from Cons.IH [OF this] show ?thesis by (auto simp: Suc_diff_le)
  qed
qed

lemma newResult_maps:
  "Sections newResult = GoMap []" "Config.MergePoints newResult = GoMap []"
  "MergeTargets newResult = GoMap []" "Metadata newResult = zeroMetadata"
  by (simp_all add: newResult_def makeMap_def)

lemma MergeAll_standard:
  assumes "configs \<noteq> []" "findBaseTemplate configs = None"
  shows "MergeAll configs =
     (case mergeEach newResult configs of None \<Rightarrow> Inl NilMapAssignment | Some result \<Rightarrow> Inr result)"
  using assms unfolding MergeAll_def Let_def by simp

lemma MergeAll_template:
  assumes "findBaseTemplate configs = Some (i, base)"
  shows "MergeAll configs =
     Inr (overrideTitle i
       (newResult\<lparr>Metadata := Metadata base,
          Sections := GoMap
            (storeEntries
               (\<lambda>section. section\<lparr>Section.Content :=
                    fillPlaceholders (collectReplacements configs) (Section.Content section)\<rparr>)
               (storeEntries (\<lambda>v. v) (entries (Sections base)) [])
               (storeEntries (\<lambda>v. v) (entries (Sections base)) [])),
          Config.MergePoints := GoMap (storeEntries (\<lambda>v. v) (entries (Config.MergePoints base)) []),
          MergeTargets := GoMap (storeEntries (\<lambda>v. v) (entries (MergeTargets base)) [])\<rparr>)
       (enumerate 0 configs))"
proof -
  from assms have ne: "configs \<noteq> []" by (auto simp: findBaseTemplate_def)
  have "MergeAll configs =
      (case mergeWithTemplate newResult (i, base) configs of
         None \<Rightarrow> Inl NilMapAssignment | Some result \<Rightarrow> Inr result)"
    using ne assms unfolding MergeAll_def Let_def by simp
  then show ?thesis
    by (simp only: mergeWithTemplate_eq [OF newResult_maps(1-3)] option.case)
qed

lemma MergeAll_mapsMade_Some:
  assumes "configs \<noteq> []"
  shows "\<exists>result. MergeAll configs = Inr result \<and> mapsMade result"
proof (cases "findBaseTemplate configs")
  case None
  have "mapsMade newResult" by (simp add: mapsMade_def newResult_maps)
  from mergeEach_mapsMade [OF this, of configs] obtain r
    where "mergeEach newResult configs = Some r" "mapsMade r" by blast
  with MergeAll_standard [OF assms None] show ?thesis by simp
next
  case (Some p)
  obtain i base where "p = (i, base)" by (cases p)
  with Some have "findBaseTemplate configs = Some (i, base)" by simp
  from MergeAll_template [OF this] show ?thesis
    by (simp add: mapsMade_def overrideTitle_maps)
qed

text \<open>
  Claim C6. Merging the empty sequence fails with the error for an empty merge set;
  merging a non-empty sequence returns a document.
\<close>

theorem MergeAll_result:
  "MergeAll [] = Inl NoConfigurations
   \<and> (configs \<noteq> [] \<longrightarrow> (\<exists>result. MergeAll configs = Inr result))"
proof
  show "MergeAll [] = Inl NoConfigurations" by (simp add: MergeAll_def)
  show "configs \<noteq> [] \<longrightarrow> (\<exists>result. MergeAll configs = Inr result)"
    using MergeAll_mapsMade_Some [of configs] by blast
qed

theorem MergeAll_result_witness:
  "[zeroConfig] \<noteq> [] \<and> (\<exists>result. MergeAll [zeroConfig] = Inr result)"
  using MergeAll_result [of "[zeroConfig]"] by simp

section \<open>The normalizer leaves no map nil\<close>

lemma ParseConfig_mapsMade:
  assumes "ParseConfig lib data format = Inr config"
  shows "mapsMade config"
proof -
  from assms obtain c0 where
    "config = (let config = (if Sections c0 = NilMap
                            then c0\<lparr>Sections := makeMap\<rparr> else c0);
                  config = (if Config.MergePoints config = NilMap
                            then config\<lparr>Config.MergePoints := makeMap\<rparr> else config);
                  config = (if MergeTargets config = NilMap
                            then config\<lparr>MergeTargets := makeMap\<rparr> else config);
                  config = config\<lparr>SourceFormat := format\<rparr>
              in config)"
    unfolding ParseConfig_def by (auto simp: Let_def split: sum.splits)
  then show ?thesis
    by (simp add: mapsMade_def Let_def makeMap_def)
qed

text \<open>
  Claim C9. A document that the normalizer returns has its three maps made (sections,
  merge points, merge targets), and so has the document that the merge engine returns.
\<close>

theorem maps_never_nil:
  "(ParseConfig lib data format = Inr config \<longrightarrow> mapsMade config)
   \<and> (MergeAll configs = Inr result \<longrightarrow> mapsMade result)"
proof
  show "ParseConfig lib data format = Inr config \<longrightarrow> mapsMade config"
    using ParseConfig_mapsMade by blast
  show "MergeAll configs = Inr result \<longrightarrow> mapsMade result"
  proof
    assume r: "MergeAll configs = Inr result"
    then have "configs \<noteq> []" by (auto simp: MergeAll_def)
    from MergeAll_mapsMade_Some [OF this] r show "mapsMade result" by auto
  qed
qed

theorem maps_never_nil_witness:
  "ParseConfig
     \<lparr>tomlUnmarshal = (\<lambda>data. Inr zeroConfig), yamlUnmarshal = (\<lambda>data. Inr zeroConfig),
      yamlUnmarshalMap = (\<lambda>data. Inr []), ToLower = (\<lambda>s. s)\<rparr>
     ''# Notes\<newline>'' FormatMarkdown
   = Inr \<lparr>Metadata = zeroMetadata\<lparr>Title := ''Untitled Document''\<rparr>,
          Sections = GoMap [(''content'', zeroSection\<lparr>Order := 1, Section.Content := ''# Notes''\<rparr>)],
          Config.MergePoints = GoMap [], MergeTargets = GoMap [],
          SourceFile = [], SourceFormat = FormatMarkdown\<rparr>
   \<and> mapsMade \<lparr>Metadata = zeroMetadata\<lparr>Title := ''Untitled Document''\<rparr>,
          Sections = GoMap [(''content'', zeroSection\<lparr>Order := 1, Section.Content := ''# Notes''\<rparr>)],
          Config.MergePoints = GoMap [], MergeTargets = GoMap [],
          SourceFile = [], SourceFormat = FormatMarkdown\<rparr>
   \<and> MergeAll [zeroConfig]
   = Inr \<lparr>Metadata = zeroMetadata, Sections = GoMap [], Config.MergePoints = GoMap [],
          MergeTargets = GoMap [], SourceFile = [], SourceFormat = FormatTOML\<rparr>
   \<and> mapsMade \<lparr>Metadata = zeroMetadata, Sections = GoMap [], Config.MergePoints = GoMap [],
          MergeTargets = GoMap [], SourceFile = [], SourceFormat = FormatTOML\<rparr>"
proof -
  let ?lib = "\<lparr>tomlUnmarshal = (\<lambda>data. Inr zeroConfig), yamlUnmarshal = (\<lambda>data. Inr zeroConfig),
      yamlUnmarshalMap = (\<lambda>data. Inr []), ToLower = (\<lambda>s. s)\<rparr>"
  let ?c = "\<lparr>Metadata = zeroMetadata\<lparr>Title := ''Untitled Document''\<rparr>,
          Sections = GoMap [(''content'', zeroSection\<lparr>Order := 1, Section.Content := ''# Notes''\<rparr>)],
          Config.MergePoints = GoMap [], MergeTargets = GoMap [],
          SourceFile = [], SourceFormat = FormatMarkdown\<rparr>"
  let ?r = "\<lparr>Metadata = zeroMetadata, Sections = GoMap [], Config.MergePoints = GoMap [],
          MergeTargets = GoMap [], SourceFile = [], SourceFormat = FormatTOML\<rparr>"
  have p: "ParseConfig ?lib ''# Notes\<newline>'' FormatMarkdown = Inr ?c"
    by code_simp
  have m: "MergeAll [zeroConfig] = Inr ?r"
    by code_simp
  from maps_never_nil [of ?lib "''# Notes\<newline>''" FormatMarkdown ?c "[zeroConfig]" ?r] p m
  show ?thesis by blast
qed

section \<open>The metadata priority follows the title\<close>

lemma mergeTitle_titleReplaced:
  "mergeTitle (Metadata result) (Metadata incoming) =
     (if titleReplaced result incoming
      then (Metadata result)\<lparr>Title := Title (Metadata incoming),
             Metadata.Priority := Metadata.Priority (Metadata incoming)\<rparr>
      else Metadata result)"
  by (simp add: mergeTitle_def titleReplaced_def)

lemma other_fields_keep_Priority:
  "Metadata.Priority (mergeDescription m im) = Metadata.Priority m"
  "Metadata.Priority (mergeVersion m im) = Metadata.Priority m"
  "Metadata.Priority (mergeLanguage m im) = Metadata.Priority m"
  "Metadata.Priority (mergeExtends m im) = Metadata.Priority m"
  by (simp_all add: mergeDescription_def mergeVersion_def mergeLanguage_def mergeExtends_def)

lemma other_fields_keep_Title:
  "Title (mergeDescription m im) = Title m"
  "Title (mergeVersion m im) = Title m"
  "Title (mergeLanguage m im) = Title m"
  "Title (mergeExtends m im) = Title m"
  by (simp_all add: mergeDescription_def mergeVersion_def mergeLanguage_def mergeExtends_def)

lemma mergeMetadata_Priority_Title:
  "Metadata.Priority (Metadata (mergeMetadata result incoming)) =
     Metadata.Priority (mergeTitle (Metadata result) (Metadata incoming))"
  "Title (Metadata (mergeMetadata result incoming)) =
     Title (mergeTitle (Metadata result) (Metadata incoming))"
  by (simp_all add: mergeMetadata_def Let_def other_fields_keep_Priority other_fields_keep_Title)

text \<open>
  Claim C7, as amended. After \<open>mergeMetadata\<close> has processed an incoming document, the
  accumulator's metadata priority is the incoming one when the title was replaced in
  that step, and is unchanged otherwise; the blocks for description, version, language
  and extends never change it. So, when the two priorities differed before the step,
  the accumulator's priority equals the incoming one exactly when the title was
  replaced.
\<close>

theorem mergeMetadata_Priority:
  "Metadata.Priority (Metadata (mergeMetadata result incoming)) =
     (if titleReplaced result incoming then Metadata.Priority (Metadata incoming)
      else Metadata.Priority (Metadata result))
   \<and> Title (Metadata (mergeMetadata result incoming)) =
     (if titleReplaced result incoming then Title (Metadata incoming)
      else Title (Metadata result))
   \<and> Metadata.Priority (mergeDescription m im) = Metadata.Priority m
   \<and> Metadata.Priority (mergeVersion m im) = Metadata.Priority m
   \<and> Metadata.Priority (mergeLanguage m im) = Metadata.Priority m
   \<and> Metadata.Priority (mergeExtends m im) = Metadata.Priority m
   \<and> (Metadata.Priority (Metadata result) \<noteq> Metadata.Priority (Metadata incoming) \<longrightarrow>
        (Metadata.Priority (Metadata (mergeMetadata result incoming)) = Metadata.Priority (Metadata incoming))
          = titleReplaced result incoming)"
  by (simp add: mergeMetadata_Priority_Title mergeTitle_titleReplaced other_fields_keep_Priority)

theorem mergeMetadata_Priority_witness:
  "Metadata.Priority (Metadata (newResult\<lparr>Metadata := zeroMetadata\<lparr>Title := ''Base Title'',
        Metadata.Priority := NewRelativePriority 5\<rparr>\<rparr>))
     \<noteq> Metadata.Priority (Metadata (zeroConfig\<lparr>Metadata := zeroMetadata\<lparr>Title := ''Override Title'',
        Metadata.Priority := NewExplicitPriority 10\<rparr>\<rparr>))
   \<and> titleReplaced
        (newResult\<lparr>Metadata := zeroMetadata\<lparr>Title := ''Base Title'',
           Metadata.Priority := NewRelativePriority 5\<rparr>\<rparr>)
        (zeroConfig\<lparr>Metadata := zeroMetadata\<lparr>Title := ''Override Title'',
           Metadata.Priority := NewExplicitPriority 10\<rparr>\<rparr>)
   \<and> Metadata.Priority (Metadata (mergeMetadata
        (newResult\<lparr>Metadata := zeroMetadata\<lparr>Title := ''Base Title'',
           Metadata.Priority := NewRelativePriority 5\<rparr>\<rparr>)
        (zeroConfig\<lparr>Metadata := zeroMetadata\<lparr>Title := ''Override Title'',
           Metadata.Priority := NewExplicitPriority 10\<rparr>\<rparr>)))
     = NewExplicitPriority 10"
  using mergeMetadata_Priority
    [of "newResult\<lparr>Metadata := zeroMetadata\<lparr>Title := ''Base Title'',
           Metadata.Priority := NewRelativePriority 5\<rparr>\<rparr>"
        "zeroConfig\<lparr>Metadata := zeroMetadata\<lparr>Title := ''Override Title'',
           Metadata.Priority := NewExplicitPriority 10\<rparr>\<rparr>"]
  by (simp add: titleReplaced_def TakesPrecedenceOverOrEqual_def NewExplicitPriority_def
      NewRelativePriority_def zeroMetadata_def zeroConfig_def newResult_def)

text \<open>
  The claim as stated fails when the two priorities are equal before the step and the
  incoming document has no title: the accumulator's priority equals the incoming one
  although no title was replaced.
\<close>

theorem mergeMetadata_Priority_counterexample:
  "Metadata.Priority (Metadata (mergeMetadata
       (newResult\<lparr>Metadata := zeroMetadata\<lparr>Title := ''Base Title'',
          Metadata.Priority := NewExplicitPriority 5\<rparr>\<rparr>)
       (zeroConfig\<lparr>Metadata := zeroMetadata\<lparr>Description := ''More'',
          Metadata.Priority := NewExplicitPriority 5\<rparr>\<rparr>)))
     = Metadata.Priority (Metadata
       (zeroConfig\<lparr>Metadata := zeroMetadata\<lparr>Description := ''More'',
          Metadata.Priority := NewExplicitPriority 5\<rparr>\<rparr>))
   \<and> \<not> titleReplaced
       (newResult\<lparr>Metadata := zeroMetadata\<lparr>Title := ''Base Title'',
          Metadata.Priority := NewExplicitPriority 5\<rparr>\<rparr>)
       (zeroConfig\<lparr>Metadata := zeroMetadata\<lparr>Description := ''More'',
          Metadata.Priority := NewExplicitPriority 5\<rparr>\<rparr>)
   \<and> Metadata (mergeMetadata
       (newResult\<lparr>Metadata := zeroMetadata\<lparr>Title := ''Base Title'',
          Metadata.Priority := NewExplicitPriority 5\<rparr>\<rparr>)
       (zeroConfig\<lparr>Metadata := zeroMetadata\<lparr>Description := ''More'',
          Metadata.Priority := NewExplicitPriority 5\<rparr>\<rparr>))
     = zeroMetadata\<lparr>Title := ''Base Title'', Description := ''More'',
         Metadata.Priority := NewExplicitPriority 5\<rparr>"
  by code_simp

section \<open>Two documents in standard mode\<close>

lemma mergeEach_Sections:
  assumes "Sections r = GoMap a" "Config.MergePoints r = GoMap b" "MergeTargets r = GoMap c"
  shows "\<exists>r'. mergeEach r cfgs = Some r' \<and>
     Sections r' = GoMap (foldl (\<lambda>a cfg. mergeEntries Section.Priority (entries (Sections cfg)) a) a cfgs)"
  using assms
proof (induction cfgs arbitrary: r a b c)
  case Nil
  then show ?case by simp
next
  case (Cons cfg cfgs)
  let ?r' = "(mergeMetadata r cfg)
          \<lparr>Sections := GoMap (mergeEntries Section.Priority (entries (Sections cfg)) a),
           Config.MergePoints := GoMap (mergeEntries MergePoint.Priority (entries (Config.MergePoints cfg)) b),
           MergeTargets := GoMap (mergeEntries MergeTarget.Priority (entries (MergeTargets cfg)) c)\<rparr>"
  have "\<exists>r''. mergeEach ?r' cfgs = Some r'' \<and>
     Sections r'' = GoMap (foldl (\<lambda>a cfg. mergeEntries Section.Priority (entries (Sections cfg)) a)
        (mergeEntries Section.Priority (entries (Sections cfg)) a) cfgs)"
    by (rule Cons.IH) simp_all
  then show ?case
    by (simp only: mergeEach_Cons [OF Cons.prems] foldl_Cons)
qed

lemma MergeAll_standard_Sections:
  assumes "configs \<noteq> []" "list_all (\<lambda>cfg. \<not> hasPlaceholderSection cfg) configs"
  shows "\<exists>result. MergeAll configs = Inr result \<and>
     Sections result = GoMap (foldl (\<lambda>a cfg. mergeEntries Section.Priority (entries (Sections cfg)) a) [] configs)"
proof -
  from assms(2) have none: "findBaseTemplate configs = None" by (simp add: findBaseTemplate_None)
  from mergeEach_Sections [OF newResult_maps(1-3), of configs] obtain r'
    where "mergeEach newResult configs = Some r'"
      "Sections r' = GoMap (foldl (\<lambda>a cfg. mergeEntries Section.Priority (entries (Sections cfg)) a) [] configs)"
    by blast
  with MergeAll_standard [OF assms(1) none] show ?thesis by simp
qed

text \<open>
  Claim C2, as amended. Let no section of \<open>X\<close> or \<open>Y\<close> contain both placeholder
  prefixes, so that the merge runs in standard mode. When \<open>X\<close> has a section under a
  key with an explicit priority and \<open>Y\<close> has a section under the same key with a
  relative priority, merging \<open>[X, Y]\<close> and merging \<open>[Y, X]\<close> both return a document
  that holds the section of \<open>X\<close> under that key, whatever the two magnitudes are.
\<close>

theorem explicit_section_wins_in_both_orders:
  assumes "uniqueKeys (Sections X)" "uniqueKeys (Sections Y)"
    and "\<not> hasPlaceholderSection X" "\<not> hasPlaceholderSection Y"
    and "lookup (Sections X) k = Some sx" "Type (Section.Priority sx) = PriorityExplicit"
    and "lookup (Sections Y) k = Some sy" "Type (Section.Priority sy) = PriorityRelative"
  shows "\<exists>r1 r2. MergeAll [X, Y] = Inr r1 \<and> MergeAll [Y, X] = Inr r2
     \<and> lookup (Sections r1) k = Some sx \<and> lookup (Sections r2) k = Some sx"
proof -
  have dx: "distinct (map fst (entries (Sections X)))" and dy: "distinct (map fst (entries (Sections Y)))"
    using assms(1,2) by (simp_all add: uniqueKeys_def)
  have mx: "map_of (entries (Sections X)) k = Some sx" and my: "map_of (entries (Sections Y)) k = Some sy"
    using assms(5,7) by (simp_all add: lookup_def)
  have lose: "\<not> TakesPrecedenceOverOrEqual (Section.Priority sy) (Section.Priority sx)"
    and win: "TakesPrecedenceOverOrEqual (Section.Priority sx) (Section.Priority sy)"
    using assms(6,8) by (simp_all add: TakesPrecedenceOverOrEqual_def)
  from MergeAll_standard_Sections [of "[X, Y]"] assms(3,4) obtain r1
    where r1: "MergeAll [X, Y] = Inr r1"
      "Sections r1 = GoMap (mergeEntries Section.Priority (entries (Sections Y))
          (mergeEntries Section.Priority (entries (Sections X)) []))"
    by auto
  from MergeAll_standard_Sections [of "[Y, X]"] assms(3,4) obtain r2
    where r2: "MergeAll [Y, X] = Inr r2"
      "Sections r2 = GoMap (mergeEntries Section.Priority (entries (Sections X))
          (mergeEntries Section.Priority (entries (Sections Y)) []))"
    by auto
  have "lookup (Sections r1) k = Some sx"
    by (simp add: lookup_def r1(2) map_of_mergeEntries [OF dx] map_of_mergeEntries [OF dy] mx my lose)
  moreover have "lookup (Sections r2) k = Some sx"
    by (simp add: lookup_def r2(2) map_of_mergeEntries [OF dx] map_of_mergeEntries [OF dy] mx my win)
  ultimately show ?thesis using r1(1) r2(1) by blast
qed

theorem explicit_section_wins_in_both_orders_witness:
  "uniqueKeys (Sections (zeroConfig\<lparr>Sections := GoMap [(''s'', zeroSection\<lparr>Section.Content := ''x'',
        Section.Priority := NewExplicitPriority 5\<rparr>)]\<rparr>))
   \<and> uniqueKeys (Sections (zeroConfig\<lparr>Sections := GoMap [(''s'', zeroSection\<lparr>Section.Content := ''y'',
        Section.Priority := NewRelativePriority 1000\<rparr>)]\<rparr>))
   \<and> \<not> hasPlaceholderSection (zeroConfig\<lparr>Sections := GoMap [(''s'', zeroSection\<lparr>Section.Content := ''x'',
        Section.Priority := NewExplicitPriority 5\<rparr>)]\<rparr>)
   \<and> \<not> hasPlaceholderSection (zeroConfig\<lparr>Sections := GoMap [(''s'', zeroSection\<lparr>Section.Content := ''y'',
        Section.Priority := NewRelativePriority 1000\<rparr>)]\<rparr>)
   \<and> (\<exists>r1 r2.
        MergeAll
          [zeroConfig\<lparr>Sections := GoMap [(''s'', zeroSection\<lparr>Section.Content := ''x'',
             Section.Priority := NewExplicitPriority 5\<rparr>)]\<rparr>,
           zeroConfig\<lparr>Sections := GoMap [(''s'', zeroSection\<lparr>Section.Content := ''y'',
             Section.Priority := NewRelativePriority 1000\<rparr>)]\<rparr>] = Inr r1
        \<and> MergeAll
          [zeroConfig\<lparr>Sections := GoMap [(''s'', zeroSection\<lparr>Section.Content := ''y'',
             Section.Priority := NewRelativePriority 1000\<rparr>)]\<rparr>,
           zeroConfig\<lparr>Sections := GoMap [(''s'', zeroSection\<lparr>Section.Content := ''x'',
             Section.Priority := NewExplicitPriority 5\<rparr>)]\<rparr>] = Inr r2
        \<and> lookup (Sections r1) ''s'' = Some (zeroSection\<lparr>Section.Content := ''x'',
              Section.Priority := NewExplicitPriority 5\<rparr>)
        \<and> lookup (Sections r2) ''s'' = Some (zeroSection\<lparr>Section.Content := ''x'',
              Section.Priority := NewExplicitPriority 5\<rparr>))"
proof -
  let ?sx = "zeroSection\<lparr>Section.Content := ''x'', Section.Priority := NewExplicitPriority 5\<rparr>"
  let ?sy = "zeroSection\<lparr>Section.Content := ''y'', Section.Priority := NewRelativePriority 1000\<rparr>"
  let ?X = "zeroConfig\<lparr>Sections := GoMap [(''s'', ?sx)]\<rparr>"
  let ?Y = "zeroConfig\<lparr>Sections := GoMap [(''s'', ?sy)]\<rparr>"
  have ux: "uniqueKeys (Sections ?X)" and uy: "uniqueKeys (Sections ?Y)"
    by (simp_all add: uniqueKeys_def)
  have px: "\<not> hasPlaceholderSection ?X" and py: "\<not> hasPlaceholderSection ?Y"
    by (simp_all add: hasPlaceholderSection_def containsPlaceholders_def Contains_def Index_def)
  have lx: "lookup (Sections ?X) ''s'' = Some ?sx" and ly: "lookup (Sections ?Y) ''s'' = Some ?sy"
    by (simp_all add: lookup_def)
  have tx: "Type (Section.Priority ?sx) = PriorityExplicit"
    and ty: "Type (Section.Priority ?sy) = PriorityRelative"
    by (simp_all add: NewExplicitPriority_def NewRelativePriority_def)
  from explicit_section_wins_in_both_orders [OF ux uy px py lx tx ly ty] ux uy px py
  show ?thesis by blast
qed

text \<open>
  The claim as stated fails when a section of \<open>Y\<close> holds a placeholder block: \<open>Y\<close>
  is then the base template, the sections of the result are those of \<open>Y\<close>, and the
  section under \<open>s\<close> has the (emptied) content of \<open>Y\<close>, not the content \<open>x\<close> of
  \<open>X\<close>.
\<close>

theorem explicit_section_wins_counterexample:
  "MergeAll
     [zeroConfig\<lparr>Sections := GoMap [(''s'', zeroSection\<lparr>Section.Content := ''x'',
          Section.Priority := NewExplicitPriority 5\<rparr>)]\<rparr>,
      zeroConfig\<lparr>Sections := GoMap [(''s'', zeroSection\<lparr>Section.Content :=
          ''<language-specific-test-commands-here>y</language-specific-test-commands-here>'',
          Section.Priority := NewRelativePriority 1000\<rparr>)]\<rparr>]
   = Inr \<lparr>Metadata = zeroMetadata,
          Sections = GoMap [(''s'', zeroSection\<lparr>Section.Content := [],
             Section.Priority := NewRelativePriority 1000\<rparr>)],
          Config.MergePoints = GoMap [], MergeTargets = GoMap [],
          SourceFile = [], SourceFormat = FormatTOML\<rparr>"
  by code_simp

section \<open>A single document\<close>

lemma map_of_mergeEntries_Nil:
  assumes "distinct (map fst kvs)"
  shows "map_of (mergeEntries prio kvs []) k = map_of kvs k"
  using map_of_mergeEntries [OF assms, of prio "[]" k] by (cases "map_of kvs k") auto

lemma map_of_storeEntries_Nil:
  assumes "distinct (map fst kvs)"
  shows "map_of (storeEntries (\<lambda>v. v) kvs []) k = map_of kvs k"
  using map_of_storeEntries [OF assms, of "\<lambda>v. v" "[]" k] by (cases "map_of kvs k") auto

lemma map_of_template_sections:
  assumes "distinct (map fst kvs)"
  shows "map_of (storeEntries f (storeEntries (\<lambda>v. v) kvs []) (storeEntries (\<lambda>v. v) kvs [])) k
     = map_option f (map_of kvs k)"
proof -
  have "distinct (map fst (storeEntries (\<lambda>v. v) kvs []))"
    by (rule distinct_storeEntries) simp
  from map_of_storeEntries_same [OF this] show ?thesis
    by (simp add: map_of_storeEntries_Nil [OF assms])
qed

lemma mergeMetadata_newResult:
  "Title (Metadata (mergeMetadata newResult d)) = Title (Metadata d)"
  "Description (Metadata (mergeMetadata newResult d)) = Description (Metadata d)"
  "Version (Metadata (mergeMetadata newResult d)) = Version (Metadata d)"
  "Language (Metadata (mergeMetadata newResult d)) = Language (Metadata d)"
  "Extends (Metadata (mergeMetadata newResult d)) = Extends (Metadata d)"
  "Metadata.Priority (Metadata (mergeMetadata newResult d)) =
     (if Title (Metadata d) \<noteq> [] then Metadata.Priority (Metadata d) else zeroPriority)"
  by (simp_all add: mergeMetadata_def mergeTitle_def mergeDescription_def mergeVersion_def
      mergeLanguage_def mergeExtends_def newResult_def zeroMetadata_def Let_def)

lemma MergeAll_single_standard:
  assumes "\<not> hasPlaceholderSection d"
  shows "MergeAll [d] =
     Inr ((mergeMetadata newResult d)
          \<lparr>Sections := GoMap (mergeEntries Section.Priority (entries (Sections d)) []),
           Config.MergePoints := GoMap (mergeEntries MergePoint.Priority (entries (Config.MergePoints d)) []),
           MergeTargets := GoMap (mergeEntries MergeTarget.Priority (entries (MergeTargets d)) [])\<rparr>)"
proof -
  from assms have none: "findBaseTemplate [d] = None" by (simp add: findBaseTemplate_None)
  have "[d] \<noteq> []" by simp
  from MergeAll_standard [OF this none] show ?thesis
    by (simp only: mergeEach_Cons [OF newResult_maps(1-3)] mergeEach.simps(1) option.case)
qed

lemma MergeAll_single_template:
  assumes "hasPlaceholderSection d"
  shows "MergeAll [d] =
     Inr (newResult\<lparr>Metadata := Metadata d,
          Sections := GoMap
            (storeEntries
               (\<lambda>section. section\<lparr>Section.Content :=
                    fillPlaceholders (collectReplacements [d]) (Section.Content section)\<rparr>)
               (storeEntries (\<lambda>v. v) (entries (Sections d)) [])
               (storeEntries (\<lambda>v. v) (entries (Sections d)) [])),
          Config.MergePoints := GoMap (storeEntries (\<lambda>v. v) (entries (Config.MergePoints d)) []),
          MergeTargets := GoMap (storeEntries (\<lambda>v. v) (entries (MergeTargets d)) [])\<rparr>)"
proof -
  from assms have base: "findBaseTemplate [d] = Some (0, d)" by (simp add: findBaseTemplate_def)
  have e: "enumerate 0 [d] = [(0, d)]" by simp
  show ?thesis
    by (simp only: MergeAll_template [OF base] e overrideTitle.simps simp_thms if_False)
qed

text \<open>
  Claim C5, as amended. Merging the one-element sequence \<open>[d]\<close> of a well-formed
  document succeeds and returns a document whose three maps are made, whose merge points
  and merge targets are those of \<open>d\<close>, and whose title, description, version, language
  and extends are those of \<open>d\<close>. Its metadata priority is that of \<open>d\<close> when \<open>d\<close>
  has a title or is a template (a section of it contains both placeholder prefixes), and
  the zero priority otherwise. Its sections are those of \<open>d\<close> when \<open>d\<close> is no
  template; when it is, each section is that of \<open>d\<close> with its content rewritten by the
  placeholder substitution.
\<close>

theorem MergeAll_single_document:
  assumes "wellFormed d"
  shows "\<exists>result. MergeAll [d] = Inr result
     \<and> mapsMade result
     \<and> lookup (Config.MergePoints result) = lookup (Config.MergePoints d)
     \<and> lookup (MergeTargets result) = lookup (MergeTargets d)
     \<and> Title (Metadata result) = Title (Metadata d)
     \<and> Description (Metadata result) = Description (Metadata d)
     \<and> Version (Metadata result) = Version (Metadata d)
     \<and> Language (Metadata result) = Language (Metadata d)
     \<and> Extends (Metadata result) = Extends (Metadata d)
     \<and> Metadata.Priority (Metadata result) =
         (if hasPlaceholderSection d \<or> Title (Metadata d) \<noteq> []
          then Metadata.Priority (Metadata d) else zeroPriority)
     \<and> (\<forall>k. lookup (Sections result) k =
         (if hasPlaceholderSection d
          then map_option
                 (\<lambda>section. section\<lparr>Section.Content :=
                    fillPlaceholders (collectReplacements [d]) (Section.Content section)\<rparr>)
                 (lookup (Sections d) k)
          else lookup (Sections d) k))"
proof -
  from assms have ds: "distinct (map fst (entries (Sections d)))"
    and dp: "distinct (map fst (entries (Config.MergePoints d)))"
    and dt: "distinct (map fst (entries (MergeTargets d)))"
    by (simp_all add: wellFormed_def uniqueKeys_def)
  show ?thesis
  proof (cases "hasPlaceholderSection d")
    case False
    show ?thesis
      unfolding MergeAll_single_standard [OF False]
      using False
      by (simp add: mapsMade_def lookup_def fun_eq_iff mergeMetadata_newResult
          map_of_mergeEntries_Nil [OF ds] map_of_mergeEntries_Nil [OF dp]
          map_of_mergeEntries_Nil [OF dt])
  next
    case True
    show ?thesis
      unfolding MergeAll_single_template [OF True]
      using True
      by (simp add: mapsMade_def lookup_def fun_eq_iff newResult_maps
          map_of_template_sections [OF ds] map_of_storeEntries_Nil [OF dp]
          map_of_storeEntries_Nil [OF dt])
  qed
qed

theorem MergeAll_single_document_witness:
  "wellFormed (zeroConfig\<lparr>Metadata := zeroMetadata\<lparr>Title := ''Single Config''\<rparr>,
       Sections := GoMap [(''section1'', zeroSection\<lparr>Section.Content := ''Single content''\<rparr>)]\<rparr>)
   \<and> (\<exists>result.
        MergeAll [zeroConfig\<lparr>Metadata := zeroMetadata\<lparr>Title := ''Single Config''\<rparr>,
          Sections := GoMap [(''section1'', zeroSection\<lparr>Section.Content := ''Single content''\<rparr>)]\<rparr>]
          = Inr result
        \<and> Title (Metadata result) = ''Single Config''
        \<and> Metadata.Priority (Metadata result) = zeroPriority
        \<and> lookup (Sections result) ''section1'' = Some (zeroSection\<lparr>Section.Content := ''Single content''\<rparr>)
        \<and> lookup (Sections result) ''section2'' = None
        \<and> Config.MergePoints result \<noteq> NilMap \<and> lookup (Config.MergePoints result) ''p'' = None)"
proof -
  let ?d = "zeroConfig\<lparr>Metadata := zeroMetadata\<lparr>Title := ''Single Config''\<rparr>,
       Sections := GoMap [(''section1'', zeroSection\<lparr>Section.Content := ''Single content''\<rparr>)]\<rparr>"
  have wf: "wellFormed ?d"
    by (simp add: wellFormed_def uniqueKeys_def zeroConfig_def)
  have np: "\<not> hasPlaceholderSection ?d"
    by (simp add: hasPlaceholderSection_def containsPlaceholders_def Contains_def Index_def)
  have d: "Title (Metadata ?d) = ''Single Config''" "Metadata.Priority (Metadata ?d) = zeroPriority"
    "lookup (Sections ?d) ''section1'' = Some (zeroSection\<lparr>Section.Content := ''Single content''\<rparr>)"
    "lookup (Sections ?d) ''section2'' = None"
    "lookup (Config.MergePoints ?d) ''p'' = None"
    by (simp_all add: lookup_def zeroConfig_def zeroMetadata_def)
  from MergeAll_single_document [OF wf] obtain result where
    "MergeAll [?d] = Inr result" "mapsMade result"
    "lookup (Config.MergePoints result) = lookup (Config.MergePoints ?d)"
    "Title (Metadata result) = Title (Metadata ?d)"
    "Metadata.Priority (Metadata result) =
         (if hasPlaceholderSection ?d \<or> Title (Metadata ?d) \<noteq> []
          then Metadata.Priority (Metadata ?d) else zeroPriority)"
    "\<forall>k. lookup (Sections result) k =
         (if hasPlaceholderSection ?d
          then map_option
                 (\<lambda>section. section\<lparr>Section.Content :=
                    fillPlaceholders (collectReplacements [?d]) (Section.Content section)\<rparr>)
                 (lookup (Sections ?d) k)
          else lookup (Sections ?d) k)"
    by blast
  with wf np d show ?thesis
    by (auto simp: mapsMade_def)
qed

text \<open>
  The claim as stated fails in two ways. A document with a metadata priority and no
  title comes back with the zero priority; and a document with a placeholder block
  comes back with the block replaced, here by the empty text.
\<close>

theorem MergeAll_single_document_counterexample:
  "MergeAll [zeroConfig\<lparr>Metadata := zeroMetadata\<lparr>Metadata.Priority := NewExplicitPriority 5\<rparr>,
       Sections := GoMap [(''s'', zeroSection\<lparr>Section.Content := ''x''\<rparr>)]\<rparr>]
     = Inr \<lparr>Metadata = zeroMetadata,
            Sections = GoMap [(''s'', zeroSection\<lparr>Section.Content := ''x''\<rparr>)],
            Config.MergePoints = GoMap [], MergeTargets = GoMap [],
            SourceFile = [], SourceFormat = FormatTOML\<rparr>
   \<and> MergeAll [zeroConfig\<lparr>Metadata := zeroMetadata\<lparr>Title := ''Base''\<rparr>,
       Sections := GoMap [(''s'', zeroSection\<lparr>Section.Content :=
         ''<language-specific-test-commands-here>y</language-specific-test-commands-here>''\<rparr>)]\<rparr>]
     = Inr \<lparr>Metadata = zeroMetadata\<lparr>Title := ''Base''\<rparr>,
            Sections = GoMap [(''s'', zeroSection\<lparr>Section.Content := []\<rparr>)],
            Config.MergePoints = GoMap [], MergeTargets = GoMap [],
            SourceFile = [], SourceFormat = FormatTOML\<rparr>"
  by code_simp

section \<open>Template substitution\<close>

lemma indexFrom_prefix: "prefix substr s \<Longrightarrow> indexFrom i substr s = int i"
  by (cases s) auto

lemma prefix_before_last:
  assumes "prefix t (pre @ t @ post)" "pre \<noteq> []"
  shows "sublist t (pre @ butlast t)"
proof (cases "t = []")
  case True
  then show ?thesis by simp
next
  case False
  then have t: "t = butlast t @ [last t]" by simp
  have len: "length t \<le> length (pre @ butlast t)"
    using assms(2) False by (cases pre) auto
  have "pre @ t @ post = (pre @ butlast t) @ ([last t] @ post)"
    using t by (metis append.assoc)
  with assms(1) have "prefix t ((pre @ butlast t) @ ([last t] @ post))" by simp
  moreover have "prefix (pre @ butlast t) ((pre @ butlast t) @ ([last t] @ post))"
    by (rule prefixI) simp
  ultimately have "prefix t (pre @ butlast t)"
    using len by (rule prefix_length_prefix)
  then show ?thesis by (rule prefix_imp_sublist)
qed

lemma indexFrom_first:
  "\<not> sublist t (pre @ butlast t) \<Longrightarrow> indexFrom i t (pre @ t @ post) = int (i + length pre)"
proof (induction pre arbitrary: i)
  case Nil
  show ?case by (simp add: indexFrom_prefix)
next
  case (Cons p ps)
  have np: "\<not> prefix t ((p # ps) @ t @ post)"
    using prefix_before_last [of t "p # ps" post] Cons.prems by auto
  have "\<not> sublist t (ps @ butlast t)"
    using Cons.prems by (auto simp: sublist_Cons_right)
  from Cons.IH [OF this, of "Suc i"] np show ?case by simp
qed

lemma Index_first:
  "\<not> sublist t (pre @ butlast t) \<Longrightarrow> Index (pre @ t @ post) t = int (length pre)"
  unfolding Index_def using indexFrom_first [of t pre 0 post] by simp

lemma replacePlaceholderBlock_first_block:
  assumes "\<not> sublist openTag (pre @ butlast openTag)"
    and "\<not> sublist closeTag (pre @ openTag @ mid @ butlast closeTag)"
  shows "replacePlaceholderBlock (pre @ openTag @ mid @ closeTag @ post) openTag closeTag replacement
     = pre @ replacement @ post"
proof -
  let ?content = "pre @ openTag @ mid @ closeTag @ post"
  have i: "Index ?content openTag = int (length pre)"
    using Index_first [OF assms(1), of "mid @ closeTag @ post"] by simp
  have "Index ((pre @ openTag @ mid) @ closeTag @ post) closeTag = int (length (pre @ openTag @ mid))"
    by (rule Index_first) (use assms(2) in simp)
  then have j: "Index ?content closeTag = int (length pre + length openTag + length mid)"
    by simp
  show ?thesis
    unfolding replacePlaceholderBlock_def Let_def i j
    by (simp add: nat_add_distrib)
qed

lemma MergeAll_template_Sections:
  assumes "findBaseTemplate configs = Some (i, base)" "uniqueKeys (Sections base)"
  shows "\<exists>result. MergeAll configs = Inr result \<and>
     (\<forall>k. lookup (Sections result) k =
        map_option
          (\<lambda>section. section\<lparr>Section.Content :=
              fillPlaceholders (collectReplacements configs) (Section.Content section)\<rparr>)
          (lookup (Sections base) k))"
proof -
  from assms(2) have d: "distinct (map fst (entries (Sections base)))"
    by (simp add: uniqueKeys_def)
  show ?thesis
    unfolding MergeAll_template [OF assms(1)]
    by (simp add: overrideTitle_maps lookup_def map_of_template_sections [OF d])
qed

lemma fillPlaceholders_eq:
  "fillPlaceholders replacements content =
     replacePlaceholderBlock
       (replacePlaceholderBlock content
          ''<language-specific-test-commands-here>''
          ''</language-specific-test-commands-here>''
          (getReplacement replacements ''test-commands''))
       ''<language-specific-documentation-standards>''
       ''</language-specific-documentation-standards>''
       (getReplacement replacements ''documentation-standards'')"
  unfolding fillPlaceholders_def Let_def by (simp only: if_cancel split: if_splits) auto

text \<open>
  Claim C4, as amended. In template substitution mode each section of the result is the
  section of the base template under the same key, with its content rewritten by two
  successive substitutions: first the one for the test-commands markers, with the text
  extracted under \<open>test-commands\<close>, then, on its output, the one for the
  documentation-standards markers, with the text extracted under
  \<open>documentation-standards\<close>; the text is empty when none was extracted. One
  substitution replaces the span from the first opening marker through the first closing
  marker that follows by the text, and leaves the content before and after that span as
  it is, further marker pairs included.
\<close>

theorem template_substitution:
  "(findBaseTemplate configs = Some (i, base) \<and> uniqueKeys (Sections base) \<longrightarrow>
      (\<exists>result. MergeAll configs = Inr result \<and>
         (\<forall>k. lookup (Sections result) k =
            map_option
              (\<lambda>section. section\<lparr>Section.Content :=
                 replacePlaceholderBlock
                   (replacePlaceholderBlock (Section.Content section)
                      ''<language-specific-test-commands-here>''
                      ''</language-specific-test-commands-here>''
                      (getReplacement (collectReplacements configs) ''test-commands''))
                   ''<language-specific-documentation-standards>''
                   ''</language-specific-documentation-standards>''
                   (getReplacement (collectReplacements configs) ''documentation-standards'')\<rparr>)
              (lookup (Sections base) k))))
   \<and> (\<not> sublist openTag (pre @ butlast openTag)
        \<and> \<not> sublist closeTag (pre @ openTag @ mid @ butlast closeTag) \<longrightarrow>
      replacePlaceholderBlock (pre @ openTag @ mid @ closeTag @ post) openTag closeTag replacement
        = pre @ replacement @ post)"
proof (intro conjI impI)
  assume "findBaseTemplate configs = Some (i, base) \<and> uniqueKeys (Sections base)"
  then have "findBaseTemplate configs = Some (i, base)" "uniqueKeys (Sections base)" by simp_all
  from MergeAll_template_Sections [OF this]
  show "\<exists>result. MergeAll configs = Inr result \<and>
         (\<forall>k. lookup (Sections result) k =
            map_option
              (\<lambda>section. section\<lparr>Section.Content :=
                 replacePlaceholderBlock
                   (replacePlaceholderBlock (Section.Content section)
                      ''<language-specific-test-commands-here>''
                      ''</language-specific-test-commands-here>''
                      (getReplacement (collectReplacements configs) ''test-commands''))
                   ''<language-specific-documentation-standards>''
                   ''</language-specific-documentation-standards>''
                   (getReplacement (collectReplacements configs) ''documentation-standards'')\<rparr>)
              (lookup (Sections base) k))"
    by (simp only: fillPlaceholders_eq)
next
  assume "\<not> sublist openTag (pre @ butlast openTag)
        \<and> \<not> sublist closeTag (pre @ openTag @ mid @ butlast closeTag)"
  then show "replacePlaceholderBlock (pre @ openTag @ mid @ closeTag @ post) openTag closeTag replacement
        = pre @ replacement @ post"
    using replacePlaceholderBlock_first_block by blast
qed

theorem template_substitution_witness:
  "findBaseTemplate
     [zeroConfig\<lparr>Sections := GoMap [(''content'', zeroSection\<lparr>Order := 1, Section.Content :=
        ''# Base\<newline><language-specific-test-commands-here>\<newline></language-specific-test-commands-here>''\<rparr>)]\<rparr>,
      zeroConfig\<lparr>Sections := GoMap [(''content'', zeroSection\<lparr>Order := 1, Section.Content :=
        ''### Testing commands\<newline>- test command 1''\<rparr>)]\<rparr>]
     = Some (0, zeroConfig\<lparr>Sections := GoMap [(''content'', zeroSection\<lparr>Order := 1, Section.Content :=
        ''# Base\<newline><language-specific-test-commands-here>\<newline></language-specific-test-commands-here>''\<rparr>)]\<rparr>)
   \<and> uniqueKeys (Sections (zeroConfig\<lparr>Sections := GoMap [(''content'', zeroSection\<lparr>Order := 1, Section.Content :=
        ''# Base\<newline><language-specific-test-commands-here>\<newline></language-specific-test-commands-here>''\<rparr>)]\<rparr>))
   \<and> (\<exists>result.
        MergeAll
          [zeroConfig\<lparr>Sections := GoMap [(''content'', zeroSection\<lparr>Order := 1, Section.Content :=
             ''# Base\<newline><language-specific-test-commands-here>\<newline></language-specific-test-commands-here>''\<rparr>)]\<rparr>,
           zeroConfig\<lparr>Sections := GoMap [(''content'', zeroSection\<lparr>Order := 1, Section.Content :=
             ''### Testing commands\<newline>- test command 1''\<rparr>)]\<rparr>]
          = Inr result
        \<and> lookup (Sections result) ''content''
          = Some (zeroSection\<lparr>Order := 1, Section.Content := ''# Base\<newline>- test command 1''\<rparr>))
   \<and> \<not> sublist ''<t>'' (''a'' @ butlast ''<t>'')
   \<and> \<not> sublist ''</t>'' (''a'' @ ''<t>'' @ ''b'' @ butlast ''</t>'')
   \<and> replacePlaceholderBlock (''a'' @ ''<t>'' @ ''b'' @ ''</t>'' @ ''c<t>d</t>'') ''<t>'' ''</t>'' ''R''
       = ''aRc<t>d</t>''"
proof -
  let ?B = "zeroConfig\<lparr>Sections := GoMap [(''content'', zeroSection\<lparr>Order := 1, Section.Content :=
        ''# Base\<newline><language-specific-test-commands-here>\<newline></language-specific-test-commands-here>''\<rparr>)]\<rparr>"
  let ?L = "zeroConfig\<lparr>Sections := GoMap [(''content'', zeroSection\<lparr>Order := 1, Section.Content :=
        ''### Testing commands\<newline>- test command 1''\<rparr>)]\<rparr>"
  have fb: "findBaseTemplate [?B, ?L] = Some (0, ?B)"
    by code_simp
  have uk: "uniqueKeys (Sections ?B)"
    by (simp add: uniqueKeys_def)
  have ns1: "\<not> sublist ''<t>'' (''a'' @ butlast ''<t>'')"
    using Index_absent [of "''a'' @ butlast ''<t>''" "''<t>''"] by (simp add: Index_def)
  have ns2: "\<not> sublist ''</t>'' (''a'' @ ''<t>'' @ ''b'' @ butlast ''</t>'')"
    using Index_absent [of "''a'' @ ''<t>'' @ ''b'' @ butlast ''</t>''" "''</t>''"]
    by (simp add: Index_def)
  have lb: "lookup (Sections ?B) ''content'' = Some (zeroSection\<lparr>Order := 1, Section.Content :=
        ''# Base\<newline><language-specific-test-commands-here>\<newline></language-specific-test-commands-here>''\<rparr>)"
    by (simp add: lookup_def)
  let ?f = "\<lambda>section. section\<lparr>Section.Content :=
                 replacePlaceholderBlock
                   (replacePlaceholderBlock (Section.Content section)
                      ''<language-specific-test-commands-here>''
                      ''</language-specific-test-commands-here>''
                      (getReplacement (collectReplacements [?B, ?L]) ''test-commands''))
                   ''<language-specific-documentation-standards>''
                   ''</language-specific-documentation-standards>''
                   (getReplacement (collectReplacements [?B, ?L]) ''documentation-standards'')\<rparr>"
  let ?sec = "zeroSection\<lparr>Order := 1, Section.Content :=
        ''# Base\<newline><language-specific-test-commands-here>\<newline></language-specific-test-commands-here>''\<rparr>"
  have ev: "?f ?sec = zeroSection\<lparr>Order := 1, Section.Content := ''# Base\<newline>- test command 1''\<rparr>"
    by code_simp
  note inst = template_substitution [where configs = "[?B, ?L]" and i = 0 and base = ?B
      and openTag = "''<t>''" and pre = "''a''" and closeTag = "''</t>''" and mid = "''b''"
      and post = "''c<t>d</t>''" and replacement = "''R''"]
  from inst fb uk obtain result where r: "MergeAll [?B, ?L] = Inr result"
    "\<forall>k. lookup (Sections result) k = map_option ?f (lookup (Sections ?B) k)"
    by blast
  from r(2) have "lookup (Sections result) ''content'' = map_option ?f (lookup (Sections ?B) ''content'')"
    by (rule spec)
  also have "\<dots> = Some (?f ?sec)"
    by (simp only: lb option.map)
  also have "\<dots> = Some (zeroSection\<lparr>Order := 1, Section.Content := ''# Base\<newline>- test command 1''\<rparr>)"
    by (simp only: ev)
  finally have "lookup (Sections result) ''content''
      = Some (zeroSection\<lparr>Order := 1, Section.Content := ''# Base\<newline>- test command 1''\<rparr>)" .
  moreover from inst ns1 ns2
  have "replacePlaceholderBlock (''a'' @ ''<t>'' @ ''b'' @ ''</t>'' @ ''c<t>d</t>'') ''<t>'' ''</t>'' ''R''
       = ''aRc<t>d</t>''"
    by simp
  ultimately show ?thesis using fb uk ns1 ns2 r(1) by blast
qed

text \<open>
  The claim as stated fails on a section with two marker pairs: only the first block is
  replaced, and the markers of the second pair remain in the output.
\<close>

theorem template_substitution_counterexample:
  "MergeAll
     [zeroConfig\<lparr>Sections := GoMap [(''s'', zeroSection\<lparr>Section.Content :=
        ''<language-specific-test-commands-here>a</language-specific-test-commands-here><language-specific-test-commands-here>b</language-specific-test-commands-here>''\<rparr>)]\<rparr>]
   = Inr \<lparr>Metadata = zeroMetadata,
          Sections = GoMap [(''s'', zeroSection\<lparr>Section.Content :=
            ''<language-specific-test-commands-here>b</language-specific-test-commands-here>''\<rparr>)],
          Config.MergePoints = GoMap [], MergeTargets = GoMap [],
          SourceFile = [], SourceFormat = FormatTOML\<rparr>
   \<and> Contains ''<language-specific-test-commands-here>b</language-specific-test-commands-here>''
        ''<language-specific-test-commands-here>''
   \<and> Contains ''<language-specific-test-commands-here>b</language-specific-test-commands-here>''
        ''</language-specific-test-commands-here>''"
  by code_simp

end
